theory Spec2Isabelle
  imports
    Complex_Main
    "HOL-Library.Char_ord"
    "HOL-Library.List_Lexorder"
    "HOL-Library.Product_Lexorder"
    "HOL-Library.Multiset"
begin

section \<open>Python values and exceptions\<close>

text \<open>
  The program is \<^verbatim>\<open>rank_jobs_w_claude.py\<close>. Python is dynamically typed: what the
  program reads from a JSON document or from the analysis service is whatever that
  document holds, whatever the annotations of \<^verbatim>\<open>JobListing\<close> say. The values of the
  model are therefore the values \<^verbatim>\<open>json.loads\<close> can produce. A float is the
  rational value of its double, an infinity or NaN. A \<^verbatim>\<open>dict\<close> is an association
  list whose keys are pairwise distinct, read with \<open>map_of\<close>. Text is a \<open>string\<close>;
  the model is exact on ASCII text (Python's Unicode tables for white space, digits
  and letter case are not reproduced for other characters).
\<close>

datatype pyfloat = Finite rat | PosInf | NegInf | NaN

datatype pyval =
    PNone
  | PBool bool
  | PInt int
  | PFloat pyfloat
  | PStr string
  | PList "pyval list"
  | PDict "(string \<times> pyval) list"

text \<open>
  An exception is its class and the text \<^verbatim>\<open>str(e)\<close> gives. Only subclasses of
  \<^verbatim>\<open>Exception\<close> occur. \<open>JSONDecodeError\<close> stands for \<^verbatim>\<open>json.JSONDecodeError\<close>
  and its subclasses, \<open>OtherError\<close> for every class not listed. The texts of the
  exceptions the interpreter raises are those of CPython 3.12.
\<close>

datatype exc_class =
    JSONDecodeError
  | KeyError
  | TypeError
  | IndexError
  | AttributeError
  | ValueError
  | UnboundLocalError
  | OSError
  | OtherError

datatype py_exception = Exc (exc_kind: exc_class) (exc_str: string)

text \<open>Truth value of an object, as \<^verbatim>\<open>not x\<close> and \<^verbatim>\<open>if x\<close> test it.\<close>

fun truthy :: "pyval \<Rightarrow> bool" where
  "truthy PNone = False"
| "truthy (PBool b) = b"
| "truthy (PInt i) = (i \<noteq> 0)"
| "truthy (PFloat f) = (f \<noteq> Finite 0)"
| "truthy (PStr s) = (s \<noteq> [])"
| "truthy (PList xs) = (xs \<noteq> [])"
| "truthy (PDict d) = (d \<noteq> [])"

text \<open>The name of a value's type, as it appears in the interpreter's messages.\<close>

fun type_name :: "pyval \<Rightarrow> string" where
  "type_name PNone = ''NoneType''"
| "type_name (PBool b) = ''bool''"
| "type_name (PInt i) = ''int''"
| "type_name (PFloat f) = ''float''"
| "type_name (PStr s) = ''str''"
| "type_name (PList xs) = ''list''"
| "type_name (PDict d) = ''dict''"

section \<open>The string methods the program calls\<close>

text \<open>
  \<^verbatim>\<open>str.isspace\<close> on ASCII, the white space \<^verbatim>\<open>str.strip\<close> removes: tab to
  carriage return, the four separators \<^verbatim>\<open>0x1C\<close> to \<^verbatim>\<open>0x1F\<close>, space.
\<close>

definition is_space :: "char \<Rightarrow> bool" where
  "is_space c = (let n = (of_char c :: nat) in (9 \<le> n \<and> n \<le> 13) \<or> (28 \<le> n \<and> n \<le> 32))"

definition is_digit :: "char \<Rightarrow> bool" where
  "is_digit c = (let n = (of_char c :: nat) in 48 \<le> n \<and> n \<le> 57)"

definition digit_val :: "char \<Rightarrow> int" where
  "digit_val c = int (of_char c) - 48"

definition to_lower :: "char \<Rightarrow> char" where
  "to_lower c =
     (case map_of (zip ''ABCDEFGHIJKLMNOPQRSTUVWXYZ'' ''abcdefghijklmnopqrstuvwxyz'') c of
        Some l \<Rightarrow> l
      | None \<Rightarrow> c)"

definition to_upper :: "char \<Rightarrow> char" where
  "to_upper c =
     (case map_of (zip ''abcdefghijklmnopqrstuvwxyz'' ''ABCDEFGHIJKLMNOPQRSTUVWXYZ'') c of
        Some u \<Rightarrow> u
      | None \<Rightarrow> c)"

text \<open>\<^verbatim>\<open>s.lower()\<close> and \<^verbatim>\<open>s.capitalize()\<close>.\<close>

definition py_lower :: "string \<Rightarrow> string" where
  "py_lower s = map to_lower s"

definition py_capitalize :: "string \<Rightarrow> string" where
  "py_capitalize s = (case s of [] \<Rightarrow> [] | c # cs \<Rightarrow> to_upper c # map to_lower cs)"

text \<open>\<^verbatim>\<open>s.strip()\<close> and \<^verbatim>\<open>s.strip(chars)\<close>.\<close>

definition strip_where :: "(char \<Rightarrow> bool) \<Rightarrow> string \<Rightarrow> string" where
  "strip_where p s = rev (dropWhile p (rev (dropWhile p s)))"

definition py_strip :: "string \<Rightarrow> string" where
  "py_strip s = strip_where is_space s"

definition py_strip_chars :: "string \<Rightarrow> string \<Rightarrow> string" where
  "py_strip_chars chars s = strip_where (\<lambda>c. c \<in> set chars) s"

text \<open>\<^verbatim>\<open>s.startswith(p)\<close> and \<^verbatim>\<open>sub in s\<close>.\<close>

definition py_startswith :: "string \<Rightarrow> string \<Rightarrow> bool" where
  "py_startswith s p = (take (length p) s = p)"

fun str_contains :: "string \<Rightarrow> string \<Rightarrow> bool" where
  "str_contains sub [] = (sub = [])"
| "str_contains sub (c # cs) = (py_startswith (c # cs) sub \<or> str_contains sub cs)"

text \<open>
  \<^verbatim>\<open>s.split(sep)\<close> for a separator that is not empty (every separator of the program
  is a literal): \<open>cur\<close> is the piece being read.
\<close>

function split_from :: "string \<Rightarrow> string \<Rightarrow> string \<Rightarrow> string list" where
  "split_from sep cur [] = [cur]"
| "split_from sep cur (c # cs) =
     (if sep \<noteq> [] \<and> py_startswith (c # cs) sep
      then cur # split_from sep [] (drop (length sep) (c # cs))
      else split_from sep (cur @ [c]) cs)"
  by pat_completeness auto
termination
  by (relation "measure (\<lambda>(sep, cur, s). length s)") auto

definition py_split :: "string \<Rightarrow> string \<Rightarrow> string list" where
  "py_split sep s = split_from sep [] s"

text \<open>\<^verbatim>\<open>s.replace(old, new)\<close> for \<open>old\<close> not empty: every occurrence, left to right.\<close>

function py_replace :: "string \<Rightarrow> string \<Rightarrow> string \<Rightarrow> string" where
  "py_replace old new [] = []"
| "py_replace old new (c # cs) =
     (if old \<noteq> [] \<and> py_startswith (c # cs) old
      then new @ py_replace old new (drop (length old) (c # cs))
      else c # py_replace old new cs)"
  by pat_completeness auto
termination
  by (relation "measure (\<lambda>(old, new, s). length s)") auto

text \<open>Decimal digits of a number and the quoted form \<^verbatim>\<open>repr\<close> gives a plain word.\<close>

fun show_nat :: "nat \<Rightarrow> string" where
  "show_nat n =
     (if n < 10 then [char_of (48 + n)] else show_nat (n div 10) @ [char_of (48 + n mod 10)])"

definition quoted :: "string \<Rightarrow> string" where
  "quoted s = CHR 0x27 # s @ [CHR 0x27]"

text \<open>
  \<^verbatim>\<open>int(s)\<close> in base 10. The white space \<^verbatim>\<open>int\<close> ignores around the literal is
  narrower than that of \<^verbatim>\<open>str.strip\<close>: tab to carriage return and the space, not
  the four separators \<^verbatim>\<open>0x1C\<close> to \<^verbatim>\<open>0x1F\<close>. One sign may come first, then digits,
  with a single underscore allowed between two digits. The run of digits and underscores
  is read first; when it is well formed and has more than 4300 digits (the limit
  of the interpreter, which the program does not change) the conversion is refused
  before the rest of the text is looked at. (The text of the other \<^verbatim>\<open>ValueError\<close>
  ends with the literal quoted, which is left out here.)
\<close>

definition is_int_space :: "char \<Rightarrow> bool" where
  "is_int_space c = (let n = (of_char c :: nat) in (9 \<le> n \<and> n \<le> 13) \<or> n = 32)"

fun digits_ok :: "string \<Rightarrow> bool" where
  "digits_ok [] = False"
| "digits_ok [c] = is_digit c"
| "digits_ok (c # d # r) =
     (is_digit c \<and> (if d = CHR ''_'' then digits_ok r else digits_ok (d # r)))"

definition digits_value :: "string \<Rightarrow> int" where
  "digits_value s = foldl (\<lambda>a c. 10 * a + digit_val c) 0 (filter (\<lambda>c. c \<noteq> CHR ''_'') s)"

definition int_max_str_digits :: nat where
  "int_max_str_digits = 4300"

definition py_int :: "string \<Rightarrow> py_exception + int" where
  "py_int s =
     (let t = strip_where is_int_space s;
          neg = py_startswith t ''-'';
          body = (if py_startswith t ''-'' \<or> py_startswith t ''+'' then tl t else t);
          run = takeWhile (\<lambda>c. is_digit c \<or> c = CHR ''_'') body;
          digits = length (filter is_digit run)
      in if \<not> digits_ok run
         then Inl (Exc ValueError ''invalid literal for int() with base 10'')
         else if digits > int_max_str_digits
         then Inl (Exc ValueError
                (''Exceeds the limit ('' @ show_nat int_max_str_digits
                  @ '' digits) for integer string conversion: value has '' @ show_nat digits
                  @ '' digits; use sys.set_int_max_str_digits() to increase the limit''))
         else if run \<noteq> body
         then Inl (Exc ValueError ''invalid literal for int() with base 10'')
         else Inr (if neg then - digits_value body else digits_value body))"

text \<open>\<^verbatim>\<open>xs[i]\<close> on a list, for an index that is not negative.\<close>

definition py_index :: "'a list \<Rightarrow> nat \<Rightarrow> py_exception + 'a" where
  "py_index xs i =
     (if i < length xs then Inr (xs ! i) else Inl (Exc IndexError ''list index out of range''))"

text \<open>\<^verbatim>\<open>obj[key]\<close> for a string key, and \<^verbatim>\<open>obj[:n]\<close>.\<close>

fun py_getitem :: "pyval \<Rightarrow> string \<Rightarrow> py_exception + pyval" where
  "py_getitem (PDict d) k =
     (case map_of d k of Some v \<Rightarrow> Inr v | None \<Rightarrow> Inl (Exc KeyError (quoted k)))"
| "py_getitem (PList xs) k =
     Inl (Exc TypeError ''list indices must be integers or slices, not str'')"
| "py_getitem (PStr s) k =
     Inl (Exc TypeError (''string indices must be integers, not '' @ quoted ''str''))"
| "py_getitem v k =
     Inl (Exc TypeError (quoted (type_name v) @ '' object is not subscriptable''))"

fun py_slice_to :: "nat \<Rightarrow> pyval \<Rightarrow> py_exception + pyval" where
  "py_slice_to n (PStr s) = Inr (PStr (take n s))"
| "py_slice_to n (PList xs) = Inr (PList (take n xs))"
| "py_slice_to n (PDict d) =
     Inl (Exc KeyError (''slice(None, '' @ show_nat n @ '', None)''))"
| "py_slice_to n v =
     Inl (Exc TypeError (quoted (type_name v) @ '' object is not subscriptable''))"

section \<open>The job record and the collaborators\<close>

text \<open>
  \<^verbatim>\<open>JobListing\<close>: the dataclass annotates its fields (\<^verbatim>\<open>str\<close>, \<^verbatim>\<open>int\<close>) but
  checks nothing, so a field holds any value.
\<close>

record JobListing =
  title :: pyval
  company :: pyval
  url :: pyval
  description :: pyval
  match_score :: pyval
  analysis :: pyval

text \<open>
  The prompt is one fixed template around five values: the resume and the job's
  company, title, url and description, the description cut to 4000 characters. The
  model keeps the five values in place of the text.
\<close>

record prompt =
  p_resume :: string
  p_company :: pyval
  p_title :: pyval
  p_url :: pyval
  p_description :: pyval

text \<open>
  The analysis service, \<^verbatim>\<open>self.client.messages.create\<close>, is not part of the
  program. It has a state \<open>'w\<close> of its own, so that two calls with one prompt may
  differ; a call raises or returns a message, given here as the texts of its content
  blocks. \<^verbatim>\<open>json.loads\<close> and \<^verbatim>\<open>urlparse(url).netloc\<close> belong to the standard
  library and are parameters too.
\<close>

record 'w JobRanker =
  messages_create :: "prompt \<Rightarrow> 'w \<Rightarrow> (py_exception + string list) \<times> 'w"
  resume :: string

record pylib =
  json_loads :: "string \<Rightarrow> py_exception + pyval"
  urlparse_netloc :: "string \<Rightarrow> py_exception + string"

text \<open>
  What a run does to the world: the state of the service, and the calls and the
  pauses in the order they happened. (Console output is left out.)
\<close>

datatype 'd event = Called prompt | Slept 'd

record ('w, 'd) world =
  service :: 'w
  trace :: "'d event list"

section \<open>\<^verbatim>\<open>analyze_job_listing\<close>\<close>

text \<open>
  The scrape of lines 133 to 142: the number after \<^verbatim>\<open>match_score\<close>. The bare
  \<^verbatim>\<open>except\<close> keeps the default 5 whatever goes wrong.
\<close>

definition scrape_score :: "string \<Rightarrow> py_exception + int" where
  "scrape_score content =
     (case py_index (py_split ''match_score'' content) 1 of
        Inl e \<Rightarrow> Inl e
      | Inr after_key \<Rightarrow>
          (case py_index (py_split '':'' after_key) 1 of
             Inl e \<Rightarrow> Inl e
           | Inr after_colon \<Rightarrow>
               (case py_index (py_split '','' after_colon) 0 of
                  Inl e \<Rightarrow> Inl e
                | Inr before_comma \<Rightarrow>
                    py_int (py_strip_chars [CHR 0x22] (py_strip before_comma)))))"

definition scrape :: "string \<Rightarrow> pyval \<times> pyval" where
  "scrape content =
     (let score =
        (if str_contains ''match_score'' content
         then (case scrape_score content of Inl e \<Rightarrow> 5 | Inr n \<Rightarrow> n)
         else 5)
      in (PInt score, PStr content))"

text \<open>
  The body of the \<^verbatim>\<open>try\<close> (lines 113 to 125), given what the call to the service
  did: \<^verbatim>\<open>response.content[0].text\<close>, \<^verbatim>\<open>json.loads\<close>, the two keys.
\<close>

definition try_body :: "pylib \<Rightarrow> py_exception + string list \<Rightarrow> py_exception + pyval \<times> pyval" where
  "try_body lib response =
     (case response of
        Inl e \<Rightarrow> Inl e
      | Inr content \<Rightarrow>
          (case py_index content 0 of
             Inl e \<Rightarrow> Inl e
           | Inr text \<Rightarrow>
               (case json_loads lib text of
                  Inl e \<Rightarrow> Inl e
                | Inr result \<Rightarrow>
                    (case py_getitem result ''match_score'' of
                       Inl e \<Rightarrow> Inl e
                     | Inr s \<Rightarrow>
                         (case py_getitem result ''analysis'' of
                            Inl e \<Rightarrow> Inl e
                          | Inr a \<Rightarrow> Inr (s, a))))))"

text \<open>
  The two handlers. The first one reads \<^verbatim>\<open>response\<close> again: the name is bound
  only when the call to the service returned.
\<close>

definition handlers :: "py_exception + string list \<Rightarrow> py_exception \<Rightarrow> py_exception + pyval \<times> pyval" where
  "handlers response e =
     (if exc_kind e = JSONDecodeError
      then (case response of
              Inl raised \<Rightarrow>
                Inl (Exc UnboundLocalError
                  (''cannot access local variable '' @ quoted ''response''
                    @ '' where it is not associated with a value''))
            | Inr content \<Rightarrow>
                (case py_index content 0 of
                   Inl e' \<Rightarrow> Inl e'
                 | Inr text \<Rightarrow> Inr (scrape text)))
      else Inr (PInt 0, PStr (''Analysis failed: '' @ exc_str e)))"

text \<open>
  The f-string of lines 85 to 109 is evaluated before the \<^verbatim>\<open>try\<close>: an exception
  of \<^verbatim>\<open>job.description[:4000]\<close> leaves the function.
\<close>

definition build_prompt :: "'w JobRanker \<Rightarrow> JobListing \<Rightarrow> py_exception + prompt" where
  "build_prompt self job =
     (case py_slice_to 4000 (description job) of
        Inl e \<Rightarrow> Inl e
      | Inr d \<Rightarrow>
          Inr \<lparr>p_resume = resume self, p_company = company job, p_title = title job,
               p_url = url job, p_description = d\<rparr>)"

definition analyze_job_listing ::
  "pylib \<Rightarrow> 'w JobRanker \<Rightarrow> JobListing \<Rightarrow> ('w, 'd) world
    \<Rightarrow> (py_exception + pyval \<times> pyval) \<times> ('w, 'd) world" where
  "analyze_job_listing lib self job st =
     (case build_prompt self job of
        Inl e \<Rightarrow> (Inl e, st)
      | Inr request \<Rightarrow>
          (let called = messages_create self request (service st);
               st' = st\<lparr>service := snd called, trace := trace st @ [Called request]\<rparr>
           in (case try_body lib (fst called) of
                 Inr result \<Rightarrow> (Inr result, st')
               | Inl e \<Rightarrow> (handlers (fst called) e, st'))))"

section \<open>\<^verbatim>\<open>rank_jobs\<close>\<close>

text \<open>
  The loop of lines 156 to 169. \<open>n\<close> is \<^verbatim>\<open>len(jobs)\<close> and \<open>i\<close> the counter of
  \<^verbatim>\<open>enumerate(jobs, 1)\<close>. The records are updated in place; the model returns the
  updated records in the order of the list (the entries of the list are taken to be
  different objects). \<^verbatim>\<open>time.sleep\<close> is given a delay it accepts.
\<close>

fun score_jobs ::
  "pylib \<Rightarrow> 'w JobRanker \<Rightarrow> 'd \<Rightarrow> nat \<Rightarrow> nat \<Rightarrow> JobListing list \<Rightarrow> ('w, 'd) world
    \<Rightarrow> (py_exception + JobListing list) \<times> ('w, 'd) world" where
  "score_jobs lib self delay n i [] st = (Inr [], st)"
| "score_jobs lib self delay n i (job # rest) st =
     (case analyze_job_listing lib self job st of
        (Inl e, st1) \<Rightarrow> (Inl e, st1)
      | (Inr (score, text), st1) \<Rightarrow>
          (let job' = job\<lparr>match_score := score, analysis := text\<rparr>;
               st2 = (if i < n then st1\<lparr>trace := trace st1 @ [Slept delay]\<rparr> else st1)
           in (case score_jobs lib self delay n (Suc i) rest st2 of
                 (Inl e, st3) \<Rightarrow> (Inl e, st3)
               | (Inr rest', st3) \<Rightarrow> (Inr (job' # rest'), st3))))"

text \<open>
  \<^verbatim>\<open>sorted(jobs, key=lambda x: x.match_score, reverse=True)\<close>. The sort is stable
  and compares keys with \<^verbatim>\<open><\<close>; with \<^verbatim>\<open>reverse=True\<close> it is the reverse of the
  stable ascending sort of the reversed list. Numbers (\<^verbatim>\<open>bool\<close>, \<^verbatim>\<open>int\<close>,
  \<^verbatim>\<open>float\<close>) compare by value and strings by code points. \<^verbatim>\<open>None\<close> and
  dictionaries compare with nothing, and a number, a string and a list compare only
  within their kind: since every key of a list of two or more is compared with
  another key, such a list raises \<^verbatim>\<open>TypeError\<close> (whose text names the two
  types compared first and is not reproduced). With NaN among numbers, or with
  lists as keys, the outcome depends on which keys the algorithm compares: there the
  model gives no result (\<open>None\<close>).
\<close>

fun is_number :: "pyval \<Rightarrow> bool" where
  "is_number (PBool b) = True"
| "is_number (PInt i) = True"
| "is_number (PFloat f) = True"
| "is_number v = False"

fun is_str :: "pyval \<Rightarrow> bool" where
  "is_str (PStr s) = True"
| "is_str v = False"

fun is_list :: "pyval \<Rightarrow> bool" where
  "is_list (PList xs) = True"
| "is_list v = False"

fun number_key :: "pyval \<Rightarrow> nat \<times> rat" where
  "number_key (PBool b) = (1, if b then 1 else 0)"
| "number_key (PInt i) = (1, of_int i)"
| "number_key (PFloat (Finite r)) = (1, r)"
| "number_key (PFloat PosInf) = (2, 0)"
| "number_key (PFloat NegInf) = (0, 0)"
| "number_key v = (1, 0)"

fun text_key :: "pyval \<Rightarrow> string" where
  "text_key (PStr s) = s"
| "text_key v = []"

definition sorted_reverse :: "('a \<Rightarrow> 'k::linorder) \<Rightarrow> 'a list \<Rightarrow> 'a list" where
  "sorted_reverse f xs = rev (sort_key f (rev xs))"

definition sorted_by_match_score_reverse ::
  "JobListing list \<Rightarrow> (py_exception + JobListing list) option" where
  "sorted_by_match_score_reverse jobs =
     (let keys = map match_score jobs in
      if length jobs \<le> 1 then Some (Inr jobs)
      else if list_all is_number keys \<and> PFloat NaN \<notin> set keys
        then Some (Inr (sorted_reverse (\<lambda>job. number_key (match_score job)) jobs))
      else if list_all is_str keys
        then Some (Inr (sorted_reverse (\<lambda>job. text_key (match_score job)) jobs))
      else if list_all is_number keys \<or> list_all is_list keys
        then None
      else Some (Inl (Exc TypeError (quoted ''<'' @ '' not supported between instances''))))"

definition rank_jobs ::
  "pylib \<Rightarrow> 'w JobRanker \<Rightarrow> JobListing list \<Rightarrow> 'd \<Rightarrow> ('w, 'd) world
    \<Rightarrow> (py_exception + JobListing list) option \<times> ('w, 'd) world" where
  "rank_jobs lib self jobs delay_seconds st =
     (case score_jobs lib self delay_seconds (length jobs) 1 jobs st of
        (Inl e, st') \<Rightarrow> (Some (Inl e), st')
      | (Inr scored, st') \<Rightarrow> (sorted_by_match_score_reverse scored, st'))"

section \<open>\<^verbatim>\<open>save_results\<close>\<close>

text \<open>
  The dictionary of lines 201 to 208, with its keys in the order written, and the
  list of them for \<^verbatim>\<open>enumerate(ranked_jobs, 1)\<close>.
\<close>

definition result_entry :: "nat \<Rightarrow> JobListing \<Rightarrow> pyval" where
  "result_entry i job =
     PDict [(''rank'', PInt (int i)), (''match_score'', match_score job),
            (''company'', company job), (''title'', title job), (''url'', url job),
            (''analysis'', analysis job)]"

fun results_from :: "nat \<Rightarrow> JobListing list \<Rightarrow> pyval list" where
  "results_from i [] = []"
| "results_from i (job # rest) = result_entry i job # results_from (Suc i) rest"

text \<open>
  The disk: the JSON document each file holds, kept as the value \<^verbatim>\<open>json.dump\<close>
  wrote (its text, the indentation and the escapes, is the library's), and what
  \<^verbatim>\<open>open(path, 'w')\<close> raises for a path it cannot open. Opening truncates the
  file, the dump then writes the whole list.
\<close>

record disk =
  documents :: "string \<Rightarrow> pyval option"
  refuses :: "string \<Rightarrow> py_exception option"

definition save_results :: "JobListing list \<Rightarrow> string \<Rightarrow> disk \<Rightarrow> (py_exception + unit) \<times> disk" where
  "save_results ranked_jobs filename d =
     (let results = results_from 1 ranked_jobs in
      case refuses d filename of
        Some e \<Rightarrow> (Inl e, d)
      | None \<Rightarrow> (Inr (), d\<lparr>documents := (documents d)(filename \<mapsto> PList results)\<rparr>))"

section \<open>\<^verbatim>\<open>_extract_company_name\<close>\<close>

text \<open>\<^verbatim>\<open>" hiring " in title\<close>, for whatever the title is.\<close>

fun hiring_in :: "pyval \<Rightarrow> py_exception + bool" where
  "hiring_in (PStr t) = Inr (str_contains '' hiring '' t)"
| "hiring_in (PList xs) = Inr (PStr '' hiring '' \<in> set xs)"
| "hiring_in (PDict d) = Inr ('' hiring '' \<in> set (map fst d))"
| "hiring_in v =
     Inl (Exc TypeError (''argument of type '' @ quoted (type_name v) @ '' is not iterable''))"

text \<open>
  \<^verbatim>\<open>urlparse(url).netloc.lower()\<close> followed by the first test on the domain. For a
  string the library is asked. Any other value ends in an exception: \<^verbatim>\<open>urlparse\<close>
  tries to decode a value that is true, and turns a value that is false into empty
  bytes, on which the test \<^verbatim>\<open>'linkedin.com' in domain\<close> fails.
\<close>

fun domain_of :: "pylib \<Rightarrow> pyval \<Rightarrow> py_exception + string" where
  "domain_of lib (PStr u) =
     (case urlparse_netloc lib u of Inl e \<Rightarrow> Inl e | Inr netloc \<Rightarrow> Inr (py_lower netloc))"
| "domain_of lib v =
     (if truthy v
      then Inl (Exc AttributeError
             (quoted (type_name v) @ '' object has no attribute '' @ quoted ''decode''))
      else Inl (Exc TypeError (''a bytes-like object is required, not '' @ quoted ''str'')))"

text \<open>The body of the \<^verbatim>\<open>try\<close>, lines 297 to 324.\<close>

definition company_from :: "pylib \<Rightarrow> pyval \<Rightarrow> pyval \<Rightarrow> py_exception + string" where
  "company_from lib url_value title_value =
     (case hiring_in title_value of
        Inl e \<Rightarrow> Inl e
      | Inr True \<Rightarrow>
          (case title_value of
             PStr t \<Rightarrow>
               (case py_index (py_split '' hiring '' t) 0 of
                  Inl e \<Rightarrow> Inl e
                | Inr first_part \<Rightarrow>
                    (let name = py_strip first_part in
                     Inr (if py_startswith name ''Jobs at ''
                          then py_replace ''Jobs at '' [] name
                          else name)))
           | v \<Rightarrow>
               Inl (Exc AttributeError
                 (quoted (type_name v) @ '' object has no attribute '' @ quoted ''split'')))
      | Inr False \<Rightarrow>
          (case domain_of lib url_value of
             Inl e \<Rightarrow> Inl e
           | Inr domain \<Rightarrow>
               (if str_contains ''linkedin.com'' domain then Inr ''LinkedIn Job''
                else if str_contains ''glassdoor.com'' domain then Inr ''Glassdoor Job''
                else if str_contains ''indeed.com'' domain then Inr ''Indeed Job''
                else if str_contains ''greenhouse.io'' domain then Inr ''Greenhouse Job''
                else (let domain_parts = py_split ''.'' domain in
                      if length domain_parts \<ge> 2
                      then Inr (py_capitalize (domain_parts ! (length domain_parts - 2)))
                      else Inr (py_capitalize domain)))))"

definition extract_company_name :: "pylib \<Rightarrow> pyval \<Rightarrow> pyval \<Rightarrow> string" where
  "extract_company_name lib url_value title_value =
     (case company_from lib url_value title_value of
        Inl e \<Rightarrow> ''Unknown Company''
      | Inr name \<Rightarrow> name)"

section \<open>\<^verbatim>\<open>parse_google_search_json\<close>\<close>

text \<open>\<^verbatim>\<open>item.get(key, default)\<close>: only a dictionary has the method.\<close>

fun py_get :: "pyval \<Rightarrow> string \<Rightarrow> pyval \<Rightarrow> py_exception + pyval" where
  "py_get (PDict d) k dflt = Inr (case map_of d k of Some v \<Rightarrow> v | None \<Rightarrow> dflt)"
| "py_get v k dflt =
     Inl (Exc AttributeError
       (quoted (type_name v) @ '' object has no attribute '' @ quoted ''get''))"

text \<open>
  \<^verbatim>\<open>len(x)\<close> and then the elements a \<^verbatim>\<open>for\<close> loop over \<open>x\<close> visits: the
  characters of a string, the keys of a dictionary.
\<close>

fun py_elements :: "pyval \<Rightarrow> py_exception + pyval list" where
  "py_elements (PList xs) = Inr xs"
| "py_elements (PStr s) = Inr (map (\<lambda>c. PStr [c]) s)"
| "py_elements (PDict d) = Inr (map (\<lambda>kv. PStr (fst kv)) d)"
| "py_elements v =
     Inl (Exc TypeError (''object of type '' @ quoted (type_name v) @ '' has no len()''))"

text \<open>
  One turn of the loop (lines 262 to 287): the list after it, and the exception the
  \<^verbatim>\<open>except\<close> clause caught, if any. The record is appended on line 279; the message
  of line 282 is formatted after that and evaluates \<^verbatim>\<open>title[:50]\<close>.
\<close>

definition parse_item :: "pylib \<Rightarrow> pyval \<Rightarrow> JobListing list \<Rightarrow> JobListing list \<times> py_exception option" where
  "parse_item lib item jobs =
     (case py_get item ''title'' (PStr ''Unknown Position'') of
        Inl e \<Rightarrow> (jobs, Some e)
      | Inr title_value \<Rightarrow>
     (case py_get item ''link'' (PStr []) of
        Inl e \<Rightarrow> (jobs, Some e)
      | Inr url_value \<Rightarrow>
     (case py_get item ''snippet'' (PStr []) of
        Inl e \<Rightarrow> (jobs, Some e)
      | Inr snippet \<Rightarrow>
          (let name = extract_company_name lib url_value title_value;
               job = \<lparr>title = title_value, company = PStr name, url = url_value,
                      description = snippet, match_score = PInt 0, analysis = PStr []\<rparr>;
               jobs' = jobs @ [job]
           in (case py_slice_to 50 title_value of
                 Inl e \<Rightarrow> (jobs', Some e)
               | Inr shown \<Rightarrow> (jobs', None))))))"

text \<open>
  The loop. Beside the list it returns the numbers of the items for which the
  warning of line 286 was printed.
\<close>

fun parse_items ::
  "pylib \<Rightarrow> nat \<Rightarrow> pyval list \<Rightarrow> JobListing list \<Rightarrow> nat list \<Rightarrow> JobListing list \<times> nat list" where
  "parse_items lib i [] jobs warned = (jobs, warned)"
| "parse_items lib i (item # items) jobs warned =
     (case parse_item lib item jobs of
        (jobs', None) \<Rightarrow> parse_items lib (Suc i) items jobs' warned
      | (jobs', Some e) \<Rightarrow> parse_items lib (Suc i) items jobs' (warned @ [i]))"

definition parse_google_search_json ::
  "pylib \<Rightarrow> (string \<times> pyval) list \<Rightarrow> py_exception + JobListing list \<times> nat list" where
  "parse_google_search_json lib search_results =
     (case map_of search_results ''items'' of
        None \<Rightarrow> Inr ([], [])
      | Some items \<Rightarrow>
          (if \<not> truthy items then Inr ([], [])
           else (case py_elements items of
                   Inl e \<Rightarrow> Inl e
                 | Inr entries \<Rightarrow> Inr (parse_items lib 1 entries [] []))))"

section \<open>Notions the statements use\<close>

text \<open>What identifies a record, and its score when that is an integer.\<close>

definition identity_of :: "JobListing \<Rightarrow> pyval \<times> pyval \<times> pyval \<times> pyval" where
  "identity_of job = (title job, company job, url job, description job)"

definition int_score :: "JobListing \<Rightarrow> int" where
  "int_score job = (case match_score job of PInt n \<Rightarrow> n | v \<Rightarrow> 0)"



text \<open>
  The text before the first occurrence of a separator, and what the scrape reads as
  the number: of the text after the key, the part before the next key; of that, the
  part after its first colon, up to the next comma or colon.
\<close>

fun before_first :: "string \<Rightarrow> string \<Rightarrow> string" where
  "before_first sep [] = []"
| "before_first sep (c # cs) =
     (if sep \<noteq> [] \<and> py_startswith (c # cs) sep then [] else c # before_first sep cs)"

definition number_after_key :: "string \<Rightarrow> string" where
  "number_after_key tail =
     (let segment = before_first ''match_score'' tail;
          after_colon = tl (dropWhile (\<lambda>c. c \<noteq> CHR '':'') segment)
      in takeWhile (\<lambda>c. c \<noteq> CHR '','' \<and> c \<noteq> CHR '':'') after_colon)"

text \<open>Labels put together with a separator between neighbours, as a host name is.\<close>

fun join_with :: "string \<Rightarrow> string list \<Rightarrow> string" where
  "join_with sep [] = []"
| "join_with sep [x] = x"
| "join_with sep (x # y # zs) = x @ sep @ join_with sep (y # zs)"

text \<open>
  The world in which the loop of \<^verbatim>\<open>rank_jobs\<close> starts on the record at position
  \<open>k\<close>: the one the turns for the records before it leave.
\<close>

definition world_before_turn ::
  "pylib \<Rightarrow> 'w JobRanker \<Rightarrow> 'd \<Rightarrow> JobListing list \<Rightarrow> ('w, 'd) world \<Rightarrow> nat \<Rightarrow> ('w, 'd) world" where
  "world_before_turn lib self delay jobs st k =
     snd (score_jobs lib self delay (length jobs) 1 (take k jobs) st)"

text \<open>
  The record that lines 264 to 277 build from an item that is an object, and the items
  the parser is written for: objects whose title, when present, is a string.
\<close>

definition listing_of :: "pylib \<Rightarrow> (string \<times> pyval) list \<Rightarrow> JobListing" where
  "listing_of lib d =
     (let title_value = (case map_of d ''title'' of Some v \<Rightarrow> v | None \<Rightarrow> PStr ''Unknown Position'');
          url_value = (case map_of d ''link'' of Some v \<Rightarrow> v | None \<Rightarrow> PStr [])
      in \<lparr>title = title_value,
          company = PStr (extract_company_name lib url_value title_value),
          url = url_value,
          description = (case map_of d ''snippet'' of Some v \<Rightarrow> v | None \<Rightarrow> PStr []),
          match_score = PInt 0, analysis = PStr []\<rparr>)"

fun well_formed_item :: "pyval \<Rightarrow> bool" where
  "well_formed_item (PDict d) =
     (case map_of d ''title'' of Some (PStr t) \<Rightarrow> True | Some v \<Rightarrow> False | None \<Rightarrow> True)"
| "well_formed_item v = False"

fun is_dict :: "pyval \<Rightarrow> bool" where
  "is_dict (PDict d) = True"
| "is_dict v = False"

section \<open>Collaborators for the examples\<close>

text \<open>
  A decoder for the examples. On the documents listed it answers as \<^verbatim>\<open>json.loads\<close>
  does; every other text of the examples is text that \<^verbatim>\<open>json.loads\<close> rejects.
\<close>

definition example_documents :: "(string \<times> pyval) list" where
  "example_documents =
     [(''{\"match_score\": 8, \"analysis\": \"Strong fit\"}'',
         PDict [(''match_score'', PInt 8), (''analysis'', PStr ''Strong fit'')]),
      (''{\"match_score\": 11, \"analysis\": \"\"}'',
         PDict [(''match_score'', PInt 11), (''analysis'', PStr [])]),
      (''{\"match_score\": \"8\", \"analysis\": \"Good\"}'',
         PDict [(''match_score'', PStr ''8''), (''analysis'', PStr ''Good'')]),
      (''{\"match_score\": 7, \"analysis\": \"Fair\"}'',
         PDict [(''match_score'', PInt 7), (''analysis'', PStr ''Fair'')]),
      (''{\"score\": 8}'', PDict [(''score'', PInt 8)]),
      (''{\"match_score\": 3, \"analysis\": \"a\"}'',
         PDict [(''match_score'', PInt 3), (''analysis'', PStr ''a'')]),
      (''{\"match_score\": 9, \"analysis\": \"b\"}'',
         PDict [(''match_score'', PInt 9), (''analysis'', PStr ''b'')]),
      (''{\"match_score\": 1, \"analysis\": \"c\"}'',
         PDict [(''match_score'', PInt 1), (''analysis'', PStr ''c'')]),
      (''{\"match_score\": 9, \"analysis\": \"d\"}'',
         PDict [(''match_score'', PInt 9), (''analysis'', PStr ''d'')]),
      (''{\"match_score\": 5, \"analysis\": \"e\"}'',
         PDict [(''match_score'', PInt 5), (''analysis'', PStr ''e'')])]"

definition example_json_loads :: "string \<Rightarrow> py_exception + pyval" where
  "example_json_loads s =
     (case map_of example_documents s of
        Some v \<Rightarrow> Inr v
      | None \<Rightarrow> Inl (Exc JSONDecodeError ''Expecting value: line 1 column 1 (char 0)''))"

text \<open>
  The network locations of the URLs of the examples, as \<^verbatim>\<open>urlparse(url).netloc\<close>
  gives or refuses them. The examples ask for these URLs only; for any other text the
  function answers with the empty location, which is the library's answer for text
  without a slash.
\<close>

definition example_netlocs :: "(string \<times> (py_exception + string)) list" where
  "example_netlocs =
     [(''https://careers.widgetco.com/job/42'', Inr ''careers.widgetco.com''),
      (''https://boards.greenhouse.io/acme/jobs/1'', Inr ''boards.greenhouse.io''),
      (''https://Jobs.EU.Widgetco.com/v1.2/42'', Inr ''Jobs.EU.Widgetco.com''),
      ([], Inr []),
      (''http://[bad'', Inl (Exc ValueError ''Invalid IPv6 URL''))]"

definition example_urlparse_netloc :: "string \<Rightarrow> py_exception + string" where
  "example_urlparse_netloc u = (case map_of example_netlocs u of Some r \<Rightarrow> r | None \<Rightarrow> Inr [])"

definition example_lib :: pylib where
  "example_lib = \<lparr>json_loads = example_json_loads, urlparse_netloc = example_urlparse_netloc\<rparr>"

text \<open>
  A service that follows a script: its state counts the calls, and the call number
  \<open>k\<close> gets the entry \<open>k\<close> of the script.
\<close>

definition scripted :: "(py_exception + string list) list \<Rightarrow> prompt \<Rightarrow> nat \<Rightarrow> (py_exception + string list) \<times> nat" where
  "scripted script request k =
     (if k < length script then script ! k else Inl (Exc OtherError ''Connection error.''),
      Suc k)"

definition example_ranker :: "(py_exception + string list) list \<Rightarrow> nat JobRanker" where
  "example_ranker script = \<lparr>messages_create = scripted script, resume = ''Python developer''\<rparr>"

definition example_job :: "string \<Rightarrow> JobListing" where
  "example_job t =
     \<lparr>title = PStr t, company = PStr ''Widgetco'', url = PStr ''https://careers.widgetco.com/job/42'',
      description = PStr ''Build services'', match_score = PInt 0, analysis = PStr []\<rparr>"

definition start :: "(nat, nat) world" where
  "start = \<lparr>service = 0, trace = []\<rparr>"

text \<open>Records and replies of the examples.\<close>

definition scored_job :: "string \<Rightarrow> pyval \<Rightarrow> pyval \<Rightarrow> JobListing" where
  "scored_job t s a = (example_job t)\<lparr>match_score := s, analysis := a\<rparr>"

definition three_jobs :: "JobListing list" where
  "three_jobs = [example_job ''Backend Engineer'', example_job ''Data Engineer'',
                 example_job ''Site Reliability Engineer'']"

definition three_replies :: "(py_exception + string list) list" where
  "three_replies =
     [Inr [''{\"match_score\": 8, \"analysis\": \"Strong fit\"}''],
      Inr [''Sorry, I cannot rate this.''],
      Inl (Exc OtherError ''Connection error.'')]"

definition three_scored :: "JobListing list" where
  "three_scored =
     [scored_job ''Backend Engineer'' (PInt 8) (PStr ''Strong fit''),
      scored_job ''Data Engineer'' (PInt 5) (PStr ''Sorry, I cannot rate this.''),
      scored_job ''Site Reliability Engineer'' (PInt 0)
        (PStr ''Analysis failed: Connection error.'')]"

definition five_jobs :: "JobListing list" where
  "five_jobs = [example_job ''A'', example_job ''B'', example_job ''C'', example_job ''D'',
                example_job ''E'']"

definition five_replies :: "(py_exception + string list) list" where
  "five_replies =
     [Inr [''{\"match_score\": 3, \"analysis\": \"a\"}''],
      Inr [''{\"match_score\": 9, \"analysis\": \"b\"}''],
      Inr [''{\"match_score\": 1, \"analysis\": \"c\"}''],
      Inr [''{\"match_score\": 9, \"analysis\": \"d\"}''],
      Inr [''{\"match_score\": 5, \"analysis\": \"e\"}'']]"

definition five_scored :: "JobListing list" where
  "five_scored =
     [scored_job ''A'' (PInt 3) (PStr ''a''),
      scored_job ''B'' (PInt 9) (PStr ''b''),
      scored_job ''C'' (PInt 1) (PStr ''c''),
      scored_job ''D'' (PInt 9) (PStr ''d''),
      scored_job ''E'' (PInt 5) (PStr ''e'')]"

definition wrapped_reply :: string where
  "wrapped_reply = ''Here is my rating: {\"match_score\": 7, \"analysis\": \"ok\"}''"

definition prose_first_reply :: string where
  "prose_first_reply = ''I rate the match_score below. {\"match_score\": 7, \"analysis\": \"ok\"}''"

definition example_request :: prompt where
  "example_request =
     \<lparr>p_resume = ''Python developer'', p_company = PStr ''Widgetco'',
      p_title = PStr ''Backend Engineer'', p_url = PStr ''https://careers.widgetco.com/job/42'',
      p_description = PStr ''Build services''\<rparr>"

definition example_disk :: disk where
  "example_disk = \<lparr>documents = [''job_rankings.json'' \<mapsto> PStr ''old''], refuses = (\<lambda>path. None)\<rparr>"

section \<open>Evaluation\<close>

lemmas string_defs =
  py_split_def py_startswith_def py_strip_def py_strip_chars_def strip_where_def
  is_space_def is_int_space_def is_digit_def digit_val_def digits_value_def
  int_max_str_digits_def py_int_def py_index_def
  py_lower_def py_capitalize_def to_lower_def to_upper_def quoted_def

lemmas example_defs =
  example_lib_def example_json_loads_def example_documents_def example_ranker_def
  scripted_def example_job_def start_def

lemmas analyze_defs =
  analyze_job_listing_def build_prompt_def try_body_def handlers_def scrape_def
  scrape_score_def

lemmas company_defs =
  extract_company_name_def company_from_def example_urlparse_netloc_def
  example_netlocs_def

lemmas example_data_defs =
  scored_job_def three_jobs_def three_replies_def three_scored_def five_jobs_def five_replies_def
  five_scored_def wrapped_reply_def prose_first_reply_def example_request_def
  example_disk_def

section \<open>The sort\<close>

lemma sorted_reverse_mset: "mset (sorted_reverse f xs) = mset xs"
  by (simp add: sorted_reverse_def)

lemma sorted_reverse_set: "set (sorted_reverse f xs) = set xs"
  by (simp add: sorted_reverse_def)

lemma sorted_reverse_descending: "sorted_wrt (\<lambda>a b. f b \<le> f a) (sorted_reverse f xs)"
proof -
  have "sorted (map f (sort_key f (rev xs)))" by (rule sorted_sort_key)
  then have "sorted_wrt (\<lambda>a b. f a \<le> f b) (sort_key f (rev xs))"
    by (simp add: sorted_map)
  then show ?thesis
    by (simp add: sorted_reverse_def sorted_wrt_rev)
qed

lemma sorted_reverse_stable:
  "filter (\<lambda>y. f y = k) (sorted_reverse f xs) = filter (\<lambda>y. f y = k) xs"
proof -
  have "filter (\<lambda>y. f y = k) (sorted_reverse f xs)
        = rev (filter (\<lambda>y. f y = k) (sort_key f (rev xs)))"
    by (simp add: sorted_reverse_def rev_filter)
  also have "\<dots> = rev (filter (\<lambda>y. f y = k) (rev xs))"
    by (simp only: sort_key_stable)
  also have "\<dots> = filter (\<lambda>y. f y = k) xs"
    by (simp add: rev_filter)
  finally show ?thesis .
qed

lemma int_scores_sort_branch:
  assumes ints: "\<forall>r\<in>set jobs. \<exists>n. match_score r = PInt n" and long: "\<not> length jobs \<le> 1"
  shows "sorted_by_match_score_reverse jobs
         = Some (Inr (sorted_reverse (\<lambda>job. number_key (match_score job)) jobs))"
proof -
  have "list_all is_number (map match_score jobs)"
    using ints by (auto simp: list_all_iff)
  moreover have "PFloat NaN \<notin> set (map match_score jobs)"
    using ints by auto
  ultimately show ?thesis
    using long by (simp add: sorted_by_match_score_reverse_def)
qed

lemma sorted_returns_same_records:
  assumes "sorted_by_match_score_reverse jobs = Some (Inr ranked)"
  shows "mset ranked = mset jobs"
  using assms
  by (auto simp: sorted_by_match_score_reverse_def Let_def sorted_reverse_mset split: if_splits)

lemma int_score_sorted:
  assumes ints: "\<forall>r\<in>set jobs. \<exists>n. match_score r = PInt n"
  shows "\<exists>ranked. sorted_by_match_score_reverse jobs = Some (Inr ranked)
           \<and> mset ranked = mset jobs
           \<and> sorted_wrt (\<lambda>a b. int_score a \<ge> int_score b) ranked
           \<and> (\<forall>k. filter (\<lambda>r. match_score r = PInt k) ranked
                    = filter (\<lambda>r. match_score r = PInt k) jobs)"
proof (cases "length jobs \<le> 1")
  case True
  then have short: "jobs = [] \<or> (\<exists>j. jobs = [j])"
    by (cases jobs) auto
  from True have "sorted_by_match_score_reverse jobs = Some (Inr jobs)"
    by (simp add: sorted_by_match_score_reverse_def)
  moreover from short have "sorted_wrt (\<lambda>a b. int_score a \<ge> int_score b) jobs"
    by auto
  ultimately show ?thesis by simp
next
  case False
  let ?key = "\<lambda>job. number_key (match_score job)"
  let ?ranked = "sorted_reverse ?key jobs"
  have ret: "sorted_by_match_score_reverse jobs = Some (Inr ?ranked)"
    using ints False by (rule int_scores_sort_branch)
  have key: "?key r = (1, of_int (int_score r))" if "r \<in> set jobs" for r
    using ints that by (auto simp: int_score_def)
  have "sorted_wrt (\<lambda>a b. ?key b \<le> ?key a) ?ranked"
    by (rule sorted_reverse_descending)
  then have desc: "sorted_wrt (\<lambda>a b. int_score a \<ge> int_score b) ?ranked"
  proof (rule sorted_wrt_mono_rel [rotated])
    fix a b
    assume "a \<in> set ?ranked" "b \<in> set ?ranked" "?key b \<le> ?key a"
    then show "int_score a \<ge> int_score b"
      by (simp add: sorted_reverse_set key less_eq_prod_def)
  qed
  have stable: "filter (\<lambda>r. match_score r = PInt k) ?ranked
                = filter (\<lambda>r. match_score r = PInt k) jobs" for k
  proof -
    have same: "(match_score r = PInt k) = (?key r = (1, of_int k))" if "r \<in> set jobs" for r
      using ints that by auto
    have "filter (\<lambda>r. match_score r = PInt k) ?ranked = filter (\<lambda>r. ?key r = (1, of_int k)) ?ranked"
      by (rule filter_cong) (simp_all add: sorted_reverse_set same)
    also have "\<dots> = filter (\<lambda>r. ?key r = (1, of_int k)) jobs"
      by (rule sorted_reverse_stable)
    also have "\<dots> = filter (\<lambda>r. match_score r = PInt k) jobs"
      by (rule filter_cong) (simp_all add: same)
    finally show ?thesis .
  qed
  from ret desc stable show ?thesis
    by (simp add: sorted_reverse_mset)
qed

section \<open>The loop over the records\<close>


lemma py_getitem_raises:
  "py_getitem v k = Inl e \<Longrightarrow> exc_kind e = KeyError \<or> exc_kind e = TypeError"
  by (cases v) (auto split: option.splits)

lemma score_jobs_step:
  assumes "fst (score_jobs lib self delay n i (job # rest) st) = Inr scored"
  obtains s a st1 rest' where
    "analyze_job_listing lib self job st = (Inr (s, a), st1)"
    "score_jobs lib self delay n (Suc i) rest
       (if i < n then st1\<lparr>trace := trace st1 @ [Slept delay]\<rparr> else st1)
     = (Inr rest', snd (score_jobs lib self delay n i (job # rest) st))"
    "scored = job\<lparr>match_score := s, analysis := a\<rparr> # rest'"
  using assms
  by (auto simp: Let_def split: prod.splits sum.splits)

lemma identity_of_scored:
  "identity_of (job\<lparr>match_score := s, analysis := a\<rparr>) = identity_of job"
  by (simp add: identity_of_def)

lemma score_jobs_records:
  assumes "fst (score_jobs lib self delay n i jobs st) = Inr scored"
  shows "map identity_of scored = map identity_of jobs"
  using assms
proof (induction jobs arbitrary: i st scored)
  case Nil
  then show ?case by simp
next
  case (Cons job rest)
  define st3 where "st3 = snd (score_jobs lib self delay n i (job # rest) st)"
  from Cons.prems obtain s a st1 rest' where
    next_turns: "score_jobs lib self delay n (Suc i) rest
       (if i < n then st1\<lparr>trace := trace st1 @ [Slept delay]\<rparr> else st1)
     = (Inr rest', st3)"
    and scored: "scored = job\<lparr>match_score := s, analysis := a\<rparr> # rest'"
    unfolding st3_def by (rule score_jobs_step)
  from next_turns have "fst (score_jobs lib self delay n (Suc i) rest
       (if i < n then st1\<lparr>trace := trace st1 @ [Slept delay]\<rparr> else st1)) = Inr rest'"
    by simp
  then have "map identity_of rest' = map identity_of rest"
    by (rule Cons.IH)
  with scored show ?case by (simp add: identity_of_scored)
qed




text \<open>
  What one analysis returns, by what the service answered: the body of the
  \<^verbatim>\<open>try\<close> raised something else than \<^verbatim>\<open>JSONDecodeError\<close>, or the first block of the
  reply was refused by \<^verbatim>\<open>json.loads\<close>, or it was decoded and holds the two keys.
\<close>

lemma analyze_reply_cases:
  assumes request: "build_prompt self job = Inr request"
    and reply: "reply = fst (messages_create self request (service st))"
    and result: "fst (analyze_job_listing lib self job st) = Inr (s, a)"
  shows "(\<exists>e. try_body lib reply = Inl e \<and> exc_kind e \<noteq> JSONDecodeError
             \<and> s = PInt 0 \<and> a = PStr (''Analysis failed: '' @ exc_str e))
       \<or> (\<exists>body blocks e. reply = Inr (body # blocks) \<and> json_loads lib body = Inl e
             \<and> exc_kind e = JSONDecodeError \<and> (s, a) = scrape body)
       \<or> (\<exists>body blocks decoded. reply = Inr (body # blocks) \<and> json_loads lib body = Inr decoded
             \<and> py_getitem decoded ''match_score'' = Inr s
             \<and> py_getitem decoded ''analysis'' = Inr a)"
proof (cases "try_body lib reply")
  case ok: (Inr returned)
  with request reply result have "returned = (s, a)"
    by (simp add: analyze_job_listing_def Let_def)
  with ok have "\<exists>body blocks decoded. reply = Inr (body # blocks)
             \<and> json_loads lib body = Inr decoded
             \<and> py_getitem decoded ''match_score'' = Inr s
             \<and> py_getitem decoded ''analysis'' = Inr a"
    by (cases reply; cases "projr reply")
       (auto simp: try_body_def py_index_def split: sum.splits if_splits)
  then show ?thesis by blast
next
  case raised: (Inl e)
  with request reply result have h: "handlers reply e = Inr (s, a)"
    by (simp add: analyze_job_listing_def Let_def)
  show ?thesis
  proof (cases "exc_kind e = JSONDecodeError")
    case False
    with h have "s = PInt 0 \<and> a = PStr (''Analysis failed: '' @ exc_str e)"
      by (auto simp: handlers_def)
    with raised False show ?thesis by blast
  next
    case True
    with h obtain content where c: "reply = Inr content"
      by (cases reply) (auto simp: handlers_def)
    with h True obtain body blocks where parts: "content = body # blocks"
      by (cases content) (auto simp: handlers_def py_index_def)
    with h True c have scraped: "(s, a) = scrape body"
      by (auto simp: handlers_def py_index_def)
    from raised c parts True have "json_loads lib body = Inl e"
      by (auto simp: try_body_def py_index_def split: sum.splits dest: py_getitem_raises)
    with c parts True scraped show ?thesis by blast
  qed
qed

text \<open>
  The turn for the record at position \<open>k\<close>: the record is analysed in the world the
  earlier turns left, and what the analysis returns is written to that record.
\<close>

lemma score_jobs_world_cons:
  assumes "analyze_job_listing lib self job st = (Inr (s, a), st1)"
  shows "snd (score_jobs lib self delay n i (job # rest) st)
         = snd (score_jobs lib self delay n (Suc i) rest
                  (if i < n then st1\<lparr>trace := trace st1 @ [Slept delay]\<rparr> else st1))"
  using assms by (simp add: Let_def split: prod.splits sum.splits)

lemma score_jobs_turn:
  assumes "fst (score_jobs lib self delay n i jobs st) = Inr scored" and "k < length jobs"
  shows "\<exists>s a. fst (analyze_job_listing lib self (jobs ! k)
                       (snd (score_jobs lib self delay n i (take k jobs) st))) = Inr (s, a)
           \<and> scored ! k = (jobs ! k)\<lparr>match_score := s, analysis := a\<rparr>"
  using assms
proof (induction jobs arbitrary: i st scored k)
  case Nil
  then show ?case by simp
next
  case (Cons job rest)
  define st3 where "st3 = snd (score_jobs lib self delay n i (job # rest) st)"
  from Cons.prems(1) obtain s a st1 rest' where
    first: "analyze_job_listing lib self job st = (Inr (s, a), st1)"
    and next_turns: "score_jobs lib self delay n (Suc i) rest
       (if i < n then st1\<lparr>trace := trace st1 @ [Slept delay]\<rparr> else st1)
     = (Inr rest', st3)"
    and scored: "scored = job\<lparr>match_score := s, analysis := a\<rparr> # rest'"
    unfolding st3_def by (rule score_jobs_step)
  define st2 where "st2 = (if i < n then st1\<lparr>trace := trace st1 @ [Slept delay]\<rparr> else st1)"
  show ?case
  proof (cases k)
    case 0
    with first scored show ?thesis by simp
  next
    case (Suc m)
    with Cons.prems(2) have m: "m < length rest" by simp
    from next_turns have "fst (score_jobs lib self delay n (Suc i) rest st2) = Inr rest'"
      by (simp add: st2_def)
    from Cons.IH [OF this m] obtain s' a' where
      turn: "fst (analyze_job_listing lib self (rest ! m)
                    (snd (score_jobs lib self delay n (Suc i) (take m rest) st2))) = Inr (s', a')"
      and written: "rest' ! m = (rest ! m)\<lparr>match_score := s', analysis := a'\<rparr>"
      by blast
    have "snd (score_jobs lib self delay n i (take k (job # rest)) st)
          = snd (score_jobs lib self delay n (Suc i) (take m rest) st2)"
      unfolding st2_def Suc take_Suc_Cons using first by (rule score_jobs_world_cons)
    with turn written scored Suc show ?thesis by simp
  qed
qed

lemma score_jobs_length:
  assumes "fst (score_jobs lib self delay n i jobs st) = Inr scored"
  shows "length scored = length jobs"
  using score_jobs_records [OF assms] by (metis length_map)

section \<open>Splitting\<close>

lemma split_from_first_piece:
  "split_from sep cur s \<noteq> [] \<and> hd (split_from sep cur s) = cur @ before_first sep s"
  by (induction sep cur s rule: split_from.induct) auto

lemma py_startswith_append: "py_startswith (sep @ rest) sep"
  by (simp add: py_startswith_def)

lemma split_from_at_first:
  assumes "sep \<noteq> []"
    and "\<forall>i<length pre. \<not> py_startswith (drop i (pre @ sep @ rest)) sep"
  shows "split_from sep cur (pre @ sep @ rest) = (cur @ pre) # split_from sep [] rest"
  using assms(2)
proof (induction pre arbitrary: cur)
  case Nil
  from assms(1) obtain c cs where sep: "sep = c # cs" by (cases sep) auto
  have "py_startswith (sep @ rest) sep" by (rule py_startswith_append)
  then show ?case
    using sep by simp
next
  case (Cons p ps)
  from Cons.prems have here: "\<not> py_startswith (p # ps @ sep @ rest) sep"
    by (auto dest: spec [of _ 0])
  have later: "\<forall>i<length ps. \<not> py_startswith (drop i (ps @ sep @ rest)) sep"
  proof (intro allI impI)
    fix i assume "i < length ps"
    with Cons.prems have "\<not> py_startswith (drop (Suc i) ((p # ps) @ sep @ rest)) sep"
      by (auto dest!: spec [of _ "Suc i"])
    then show "\<not> py_startswith (drop i (ps @ sep @ rest)) sep" by simp
  qed
  from here show ?case
    by (simp add: Cons.IH [OF later])
qed

lemma py_startswith_nth:
  assumes "py_startswith s p" and "j < length p"
  shows "s ! j = p ! j"
proof -
  from assms(1) have "take (length p) s = p" by (simp add: py_startswith_def)
  then have "p ! j = take (length p) s ! j" by simp
  with assms(2) show ?thesis by simp
qed

lemma py_startswith_shorter:
  assumes "py_startswith (q @ x) p" and "length p \<le> length q"
  shows "py_startswith q p"
  using assms by (simp add: py_startswith_def)

lemma str_contains_at: "py_startswith (drop i s) sub \<Longrightarrow> str_contains sub s"
proof (induction s arbitrary: i)
  case Nil
  then show ?case by (simp add: py_startswith_def)
next
  case (Cons c cs)
  then show ?case by (cases i) auto
qed

lemma str_contains_append: "str_contains sub (pre @ sub @ tail)"
  by (rule str_contains_at [of "length pre"]) (simp add: py_startswith_def)

lemma match_score_letters:
  assumes "0 < k" and "k < 11"
  shows "''match_score'' ! k \<noteq> CHR ''m''"
proof -
  from assms have "k = 1 \<or> k = 2 \<or> k = 3 \<or> k = 4 \<or> k = 5 \<or> k = 6 \<or> k = 7 \<or> k = 8
      \<or> k = 9 \<or> k = 10"
    by arith
  then show ?thesis by auto
qed

lemma match_score_first:
  assumes "\<not> str_contains ''match_score'' pre"
  shows "\<forall>i<length pre. \<not> py_startswith (drop i (pre @ ''match_score'' @ rest)) ''match_score''"
proof (intro allI impI notI)
  fix i
  assume i: "i < length pre"
    and occ: "py_startswith (drop i (pre @ ''match_score'' @ rest)) ''match_score''"
  define q where "q = drop i pre"
  from i have q: "drop i (pre @ ''match_score'' @ rest) = q @ ''match_score'' @ rest"
    and k: "0 < length q"
    by (simp_all add: q_def)
  show False
  proof (cases "length q < 11")
    case False
    with occ q have "py_startswith q ''match_score''"
      by (intro py_startswith_shorter [of q "''match_score'' @ rest"]) simp_all
    then have "str_contains ''match_score'' pre"
      unfolding q_def by (rule str_contains_at)
    with assms show False by simp
  next
    case True
    with occ q have "(q @ ''match_score'' @ rest) ! length q = ''match_score'' ! length q"
      by (intro py_startswith_nth) simp_all
    then have "''match_score'' ! length q = CHR ''m''"
      by (simp add: nth_append)
    with match_score_letters [OF k True] show False by simp
  qed
qed

lemma split_from_char:
  "split_from [c] cur s
   = (cur @ takeWhile (\<lambda>x. x \<noteq> c) s)
     # (if c \<in> set s then split_from [c] [] (tl (dropWhile (\<lambda>x. x \<noteq> c) s)) else [])"
proof (induction s arbitrary: cur)
  case Nil
  then show ?case by simp
next
  case (Cons x xs)
  show ?case
  proof (cases "x = c")
    case True
    then show ?thesis by (simp add: py_startswith_def)
  next
    case False
    then show ?thesis by (simp add: py_startswith_def Cons.IH [of "cur @ [x]"])
  qed
qed

lemma before_first_char: "before_first [c] s = takeWhile (\<lambda>x. x \<noteq> c) s"
  by (induction s) (auto simp: py_startswith_def)

lemma takeWhile_twice:
  "takeWhile p (takeWhile q s) = takeWhile (\<lambda>x. p x \<and> q x) s"
  by (induction s) auto

lemma py_int_empty: "py_int (py_strip_chars cs (py_strip [])) = Inl (Exc ValueError ''invalid literal for int() with base 10'')"
  by (simp add: py_int_def py_strip_def py_strip_chars_def strip_where_def py_startswith_def)

text \<open>
  The white space of \<^verbatim>\<open>int\<close> and of \<^verbatim>\<open>strip\<close>: a separator in front of the
  digit is removed by \<^verbatim>\<open>strip\<close> and refused by \<^verbatim>\<open>int\<close>, a tab is accepted by both.
\<close>

lemma py_int_white_space:
  "py_int [CHR 0x1C, CHR ''7''] = Inl (Exc ValueError ''invalid literal for int() with base 10'')
   \<and> py_strip [CHR 0x1C, CHR ''7''] = ''7''
   \<and> py_int [CHR 0x09, CHR ''7'', CHR 0x0A] = Inr 7
   \<and> py_int ''-1_0'' = Inr (- 10)
   \<and> py_int ''1__0'' = Inl (Exc ValueError ''invalid literal for int() with base 10'')
   \<and> py_int ''1 0'' = Inl (Exc ValueError ''invalid literal for int() with base 10'')"
  by (simp add: string_defs)

lemma scrape_score_after_key:
  assumes content: "content = pre @ ''match_score'' @ tail"
    and first: "\<not> str_contains ''match_score'' pre"
  shows "(case scrape_score content of Inl e \<Rightarrow> 5 | Inr n \<Rightarrow> n)
       = (case py_int (py_strip_chars [CHR 0x22] (py_strip (number_after_key tail))) of
            Inl e \<Rightarrow> 5 | Inr n \<Rightarrow> n)"
proof -
  let ?segment = "before_first ''match_score'' tail"
  have "split_from ''match_score'' [] (pre @ ''match_score'' @ tail)
        = ([] @ pre) # split_from ''match_score'' [] tail"
  proof (rule split_from_at_first)
    show "''match_score'' \<noteq> []" by simp
    show "\<forall>i<length pre.
            \<not> py_startswith (drop i (pre @ ''match_score'' @ tail)) ''match_score''"
      using first by (rule match_score_first)
  qed
  then have pieces: "py_split ''match_score'' content = pre # split_from ''match_score'' [] tail"
    by (simp only: py_split_def content append_Nil)
  obtain others where "split_from ''match_score'' [] tail = ?segment # others"
    using split_from_first_piece [of "''match_score''" "[]" tail]
    by (cases "split_from ''match_score'' [] tail") simp_all
  with pieces have second: "py_index (py_split ''match_score'' content) 1 = Inr ?segment"
    by (simp add: py_index_def)
  show ?thesis
  proof (cases "CHR '':'' \<in> set ?segment")
    case False
    then have third: "py_index (py_split '':'' ?segment) 1
                      = Inl (Exc IndexError ''list index out of range'')"
      by (simp add: py_split_def split_from_char py_index_def)
    from False have no_colon: "dropWhile (\<lambda>c. c \<noteq> CHR '':'') ?segment = []"
      by (auto simp: dropWhile_eq_Nil_conv)
    have blank: "number_after_key tail = []"
      by (simp only: number_after_key_def Let_def no_colon list.sel takeWhile.simps)
    have "scrape_score content = Inl (Exc IndexError ''list index out of range'')"
      by (simp only: scrape_score_def second third sum.case)
    then show ?thesis
      by (simp only: blank py_int_empty sum.case)
  next
    case True
    let ?after = "tl (dropWhile (\<lambda>c. c \<noteq> CHR '':'') ?segment)"
    obtain others where "split_from '':'' [] ?after = takeWhile (\<lambda>c. c \<noteq> CHR '':'') ?after # others"
      using split_from_first_piece [of "'':''" "[]" ?after]
      by (cases "split_from '':'' [] ?after") (simp_all add: before_first_char)
    with True have third: "py_index (py_split '':'' ?segment) 1
                    = Inr (takeWhile (\<lambda>c. c \<noteq> CHR '':'') ?after)"
      by (simp add: py_split_def split_from_char [of _ _ ?segment] py_index_def)
    have fourth: "py_index (py_split '','' (takeWhile (\<lambda>c. c \<noteq> CHR '':'') ?after)) 0
                    = Inr (number_after_key tail)"
      by (simp add: py_split_def split_from_char py_index_def number_after_key_def takeWhile_twice)
    have "scrape_score content
          = py_int (py_strip_chars [CHR 0x22] (py_strip (number_after_key tail)))"
      by (simp only: scrape_score_def second third fourth sum.case)
    then show ?thesis by simp
  qed
qed

lemma first_occurrence:
  assumes "sub \<noteq> []" and "str_contains sub s"
  shows "\<exists>pre tail. s = pre @ sub @ tail \<and> \<not> str_contains sub pre"
  using assms(2)
proof (induction s)
  case Nil
  with assms(1) show ?case by simp
next
  case (Cons c cs)
  show ?case
  proof (cases "py_startswith (c # cs) sub")
    case True
    then have "c # cs = [] @ sub @ drop (length sub) (c # cs)"
      by (metis append_Nil append_take_drop_id py_startswith_def)
    moreover from assms(1) have "\<not> str_contains sub []" by simp
    ultimately show ?thesis by blast
  next
    case False
    with Cons.prems have "str_contains sub cs" by simp
    then obtain pre tail where cs: "cs = pre @ sub @ tail" and pre: "\<not> str_contains sub pre"
      using Cons.IH by blast
    have "\<not> py_startswith (c # pre) sub"
    proof
      assume "py_startswith (c # pre) sub"
      then have "py_startswith ((c # pre) @ sub @ tail) sub"
        unfolding py_startswith_def by (metis append_eq_conv_conj append_assoc append_take_drop_id)
      with False cs show False by simp
    qed
    with pre have "\<not> str_contains sub (c # pre)" by simp
    moreover from cs have "c # cs = (c # pre) @ sub @ tail" by simp
    ultimately show ?thesis by blast
  qed
qed

text \<open>Splitting at a character what was joined with it gives the pieces back.\<close>

lemma takeWhile_until: "c \<notin> set x \<Longrightarrow> takeWhile (\<lambda>z. z \<noteq> c) (x @ c # r) = x"
  by (induction x) auto

lemma dropWhile_until: "c \<notin> set x \<Longrightarrow> dropWhile (\<lambda>z. z \<noteq> c) (x @ c # r) = c # r"
  by (induction x) auto

lemma split_from_join:
  assumes "\<forall>l\<in>set labels. c \<notin> set l" and "labels \<noteq> []"
  shows "split_from [c] cur (join_with [c] labels) = (cur @ hd labels) # tl labels"
  using assms
proof (induction labels arbitrary: cur rule: induct_list012)
  case 1
  then show ?case by simp
next
  case (2 x)
  then have "takeWhile (\<lambda>y. y \<noteq> c) x = x"
    by (auto simp: takeWhile_eq_all_conv)
  with 2 show ?case
    by (simp add: split_from_char [of c cur x])
next
  case (3 x y zs)
  let ?rest = "join_with [c] (y # zs)"
  from "3.prems" have x: "c \<notin> set x" and others: "\<forall>l\<in>set (y # zs). c \<notin> set l"
    by simp_all
  from x have front: "takeWhile (\<lambda>z. z \<noteq> c) (x @ c # ?rest) = x"
    by (rule takeWhile_until)
  from x have behind: "dropWhile (\<lambda>z. z \<noteq> c) (x @ c # ?rest) = c # ?rest"
    by (rule dropWhile_until)
  have "split_from [c] [] ?rest = ([] @ hd (y # zs)) # tl (y # zs)"
    using others by (intro "3.IH") simp_all
  then have tail: "split_from [c] [] ?rest = y # zs"
    by simp
  have "split_from [c] cur (x @ c # ?rest) = (cur @ x) # y # zs"
    by (simp only: split_from_char [of c cur "x @ c # ?rest"] front behind list.sel tail)
       simp
  then show ?case by simp
qed

lemma py_split_join:
  assumes "\<forall>l\<in>set labels. c \<notin> set l" and "labels \<noteq> []"
  shows "py_split [c] (join_with [c] labels) = labels"
  using split_from_join [OF assms, of "[]"] assms(2) by (simp add: py_split_def)

section \<open>The analysis of one record\<close>

text \<open>
  C2. The claim is that \<^verbatim>\<open>analyze_job_listing\<close> never raises and answers a failure
  of the service with score 0 and a message. When the call to the service itself
  raises \<^verbatim>\<open>json.JSONDecodeError\<close> (the client decodes the body of the HTTP
  response), the first handler runs and reads \<^verbatim>\<open>response\<close>, which was never
  bound: the function raises \<^verbatim>\<open>UnboundLocalError\<close>.
\<close>

theorem analyze_job_listing_unbound_response:
  "analyze_job_listing example_lib
      (example_ranker [Inl (Exc JSONDecodeError ''Expecting value: line 1 column 1 (char 0)'')])
      (example_job ''Backend Engineer'') start
   = (Inl (Exc UnboundLocalError
        (''cannot access local variable '' @ quoted ''response''
          @ '' where it is not associated with a value'')),
      \<lparr>service = 1,
       trace = [Called \<lparr>p_resume = ''Python developer'', p_company = PStr ''Widgetco'',
                  p_title = PStr ''Backend Engineer'',
                  p_url = PStr ''https://careers.widgetco.com/job/42'',
                  p_description = PStr ''Build services''\<rparr>]\<rparr>)"
  by (simp add: analyze_defs example_defs)

text \<open>
  Apart from that case the function returns: for a description that can be sliced
  and a service that does not raise \<^verbatim>\<open>JSONDecodeError\<close>, every path ends in a
  result, and a failure of the service in score 0 with the text of the exception.
\<close>

lemma try_body_decode_error:
  assumes "try_body lib (Inr content) = Inl e" and "exc_kind e = JSONDecodeError"
  shows "\<exists>body. py_index content 0 = Inr body \<and> json_loads lib body = Inl e"
  using assms
  by (auto simp: try_body_def py_index_def split: sum.splits if_splits dest: py_getitem_raises)

lemma analyze_job_listing_returns:
  assumes request: "build_prompt self job = Inr request"
    and service: "\<forall>e. fst (messages_create self request (service st)) = Inl e
                      \<longrightarrow> exc_kind e \<noteq> JSONDecodeError"
  shows "\<exists>result. fst (analyze_job_listing lib self job st) = Inr result"
proof (cases "try_body lib (fst (messages_create self request (service st)))")
  case (Inr result)
  with request show ?thesis
    by (simp add: analyze_job_listing_def Let_def)
next
  case (Inl e)
  show ?thesis
  proof (cases "exc_kind e = JSONDecodeError")
    case False
    with request Inl show ?thesis
      by (simp add: analyze_job_listing_def Let_def handlers_def)
  next
    case True
    show ?thesis
    proof (cases "fst (messages_create self request (service st))")
      case raised: (Inl e')
      with Inl have "e' = e" by (simp add: try_body_def)
      with raised service True show ?thesis by simp
    next
      case reply: (Inr content)
      with Inl True obtain body where "py_index content 0 = Inr body"
        using try_body_decode_error by metis
      with request Inl True reply show ?thesis
        by (simp add: analyze_job_listing_def Let_def handlers_def)
    qed
  qed
qed

lemma analyze_job_listing_service_failure:
  assumes "build_prompt self job = Inr request"
    and "fst (messages_create self request (service st)) = Inl e"
    and "exc_kind e \<noteq> JSONDecodeError"
  shows "fst (analyze_job_listing lib self job st)
         = Inr (PInt 0, PStr (''Analysis failed: '' @ exc_str e))"
  using assms
  by (simp add: analyze_job_listing_def Let_def try_body_def handlers_def)

lemma analyze_scrapes:
  assumes "build_prompt self job = Inr request"
    and "fst (messages_create self request (service st)) = Inr (content # blocks)"
    and "json_loads lib content = Inl e" and "exc_kind e = JSONDecodeError"
  shows "fst (analyze_job_listing lib self job st) = Inr (scrape content)"
  using assms
  by (simp add: analyze_job_listing_def Let_def try_body_def handlers_def py_index_def)

lemma seven_after_key:
  "py_int (py_strip_chars [CHR 0x22] (py_strip (number_after_key (''\": 7,'' @ post)))) = Inr 7"
  by (simp add: number_after_key_def string_defs)

text \<open>
  C3, as amended. When the response is not JSON the raw text is returned as the
  analysis, with score 5 when the text does not contain \<^verbatim>\<open>match_score\<close>.
  When it does, the number is read after the \<^emph>\<open>first\<close> occurrence of the key: from
  the text between that occurrence and the next one, the part after its first colon
  up to the next comma or colon, stripped of white space and quotes; the score is
  that integer, or 5 when there is none. A body in which \<^verbatim>\<open>match_score": 7,\<close> is
  the first occurrence of the key yields 7.
\<close>

theorem analyze_job_listing_scrape:
  assumes "build_prompt self job = Inr request"
    and "fst (messages_create self request (service st)) = Inr (content # blocks)"
    and "json_loads lib content = Inl e" and "exc_kind e = JSONDecodeError"
  shows "\<exists>score. fst (analyze_job_listing lib self job st) = Inr (PInt score, PStr content)
       \<and> (\<not> str_contains ''match_score'' content \<longrightarrow> score = 5)
       \<and> (str_contains ''match_score'' content \<longrightarrow>
            (\<exists>pre tail. content = pre @ ''match_score'' @ tail
               \<and> \<not> str_contains ''match_score'' pre
               \<and> score = (case py_int (py_strip_chars [CHR 0x22] (py_strip (number_after_key tail))) of
                             Inl x \<Rightarrow> 5 | Inr n \<Rightarrow> n)))
       \<and> (\<forall>pre post. content = pre @ ''match_score\": 7,'' @ post
               \<and> \<not> str_contains ''match_score'' pre \<longrightarrow> score = 7)"
proof -
  define score where
    "score = (if str_contains ''match_score'' content
              then (case scrape_score content of Inl x \<Rightarrow> 5 | Inr n \<Rightarrow> n) else 5)"
  have "fst (analyze_job_listing lib self job st) = Inr (scrape content)"
    using assms by (rule analyze_scrapes)
  then have result: "fst (analyze_job_listing lib self job st) = Inr (PInt score, PStr content)"
    by (simp add: scrape_def score_def)
  have absent: "\<not> str_contains ''match_score'' content \<longrightarrow> score = 5"
    by (simp add: score_def)
  have present: "str_contains ''match_score'' content \<longrightarrow>
            (\<exists>pre tail. content = pre @ ''match_score'' @ tail
               \<and> \<not> str_contains ''match_score'' pre
               \<and> score = (case py_int (py_strip_chars [CHR 0x22] (py_strip (number_after_key tail))) of
                             Inl x \<Rightarrow> 5 | Inr n \<Rightarrow> n))"
  proof
    assume found: "str_contains ''match_score'' content"
    then obtain pre tail where parts: "content = pre @ ''match_score'' @ tail"
      and first: "\<not> str_contains ''match_score'' pre"
      using first_occurrence [of "''match_score''" content] by auto
    from found have "score = (case scrape_score content of Inl x \<Rightarrow> 5 | Inr n \<Rightarrow> n)"
      by (simp add: score_def)
    with scrape_score_after_key [OF parts first] parts first show "\<exists>pre tail. content = pre @ ''match_score'' @ tail
               \<and> \<not> str_contains ''match_score'' pre
               \<and> score = (case py_int (py_strip_chars [CHR 0x22] (py_strip (number_after_key tail))) of
                             Inl x \<Rightarrow> 5 | Inr n \<Rightarrow> n)"
      by metis
  qed
  have seven: "\<forall>pre post. content = pre @ ''match_score\": 7,'' @ post
               \<and> \<not> str_contains ''match_score'' pre \<longrightarrow> score = 7"
  proof (intro allI impI)
    fix pre post
    assume h: "content = pre @ ''match_score\": 7,'' @ post \<and> \<not> str_contains ''match_score'' pre"
    then have parts: "content = pre @ ''match_score'' @ (''\": 7,'' @ post)"
      and first: "\<not> str_contains ''match_score'' pre"
      by simp_all
    from parts have "str_contains ''match_score'' content"
      by (simp only: str_contains_append)
    then have "score = (case scrape_score content of Inl x \<Rightarrow> 5 | Inr n \<Rightarrow> n)"
      by (simp add: score_def)
    also have "\<dots> = (case py_int (py_strip_chars [CHR 0x22]
                         (py_strip (number_after_key (''\": 7,'' @ post)))) of
                       Inl x \<Rightarrow> 5 | Inr n \<Rightarrow> n)"
      using parts first by (rule scrape_score_after_key)
    also have "\<dots> = 7"
      by (simp only: seven_after_key sum.case)
    finally show "score = 7" .
  qed
  from result absent present seven show ?thesis by blast
qed

theorem analyze_job_listing_scrape_witness:
  "fst (analyze_job_listing example_lib (example_ranker [Inr [wrapped_reply]])
         (example_job ''Backend Engineer'') start) = Inr (PInt 7, PStr wrapped_reply)
   \<and> (\<exists>score. fst (analyze_job_listing example_lib (example_ranker [Inr [wrapped_reply]])
                      (example_job ''Backend Engineer'') start)
                 = Inr (PInt score, PStr wrapped_reply)
       \<and> (\<not> str_contains ''match_score'' wrapped_reply \<longrightarrow> score = 5)
       \<and> (str_contains ''match_score'' wrapped_reply \<longrightarrow>
            (\<exists>pre tail. wrapped_reply = pre @ ''match_score'' @ tail
               \<and> \<not> str_contains ''match_score'' pre
               \<and> score = (case py_int (py_strip_chars [CHR 0x22] (py_strip (number_after_key tail))) of
                             Inl x \<Rightarrow> 5 | Inr n \<Rightarrow> n)))
       \<and> (\<forall>pre post. wrapped_reply = pre @ ''match_score\": 7,'' @ post
               \<and> \<not> str_contains ''match_score'' pre \<longrightarrow> score = 7))"
proof -
  have request: "build_prompt (example_ranker [Inr [wrapped_reply]]) (example_job ''Backend Engineer'')
                 = Inr example_request"
    by (simp add: build_prompt_def example_defs example_data_defs)
  have reply: "fst (messages_create (example_ranker [Inr [wrapped_reply]]) example_request
                     (service start)) = Inr (wrapped_reply # [])"
    by (simp add: example_defs)
  have rejected: "json_loads example_lib wrapped_reply
                  = Inl (Exc JSONDecodeError ''Expecting value: line 1 column 1 (char 0)'')"
    by (simp add: example_defs example_data_defs)
  have kind: "exc_kind (Exc JSONDecodeError ''Expecting value: line 1 column 1 (char 0)'')
              = JSONDecodeError"
    by simp
  have seven: "fst (analyze_job_listing example_lib (example_ranker [Inr [wrapped_reply]])
         (example_job ''Backend Engineer'') start) = Inr (PInt 7, PStr wrapped_reply)"
    by (simp add: analyze_defs example_defs example_data_defs string_defs)
  from seven analyze_job_listing_scrape [OF request reply rejected kind] show ?thesis
    by (rule conjI)
qed

text \<open>
  C3 as stated fails: a body that is not JSON and contains \<^verbatim>\<open>match_score": 7,\<close>
  yields 5 when the prose before it mentions the key.
\<close>

theorem scrape_misses_later_key:
  "str_contains ''match_score\": 7,'' prose_first_reply
   \<and> json_loads example_lib prose_first_reply
       = Inl (Exc JSONDecodeError ''Expecting value: line 1 column 1 (char 0)'')
   \<and> fst (analyze_job_listing example_lib (example_ranker [Inr [prose_first_reply]])
         (example_job ''Backend Engineer'') start) = Inr (PInt 5, PStr prose_first_reply)"
  by (simp add: analyze_defs example_defs example_data_defs string_defs)

lemma py_getitem_found:
  "py_getitem result k = Inr v \<Longrightarrow> \<exists>d. result = PDict d \<and> map_of d k = Some v"
  by (cases result) (auto split: option.splits)

text \<open>
  C10. A response that decodes, but not to an object that has both keys, ends in
  the general handler: \<^verbatim>\<open>result["match_score"]\<close> or \<^verbatim>\<open>result["analysis"]\<close> raises
  \<^verbatim>\<open>KeyError\<close> or \<^verbatim>\<open>TypeError\<close>, and the result is score 0 with an analysis that
  starts with \<^verbatim>\<open>Analysis failed: \<close>, not the 5 of the scrape.
\<close>

theorem analyze_job_listing_missing_key:
  assumes request: "build_prompt self job = Inr request"
    and reply: "fst (messages_create self request (service st)) = Inr (content # blocks)"
    and decoded: "json_loads lib content = Inr result"
    and lacks: "\<not> (\<exists>d s a. result = PDict d \<and> map_of d ''match_score'' = Some s
                      \<and> map_of d ''analysis'' = Some a)"
  shows "\<exists>e. (exc_kind e = KeyError \<or> exc_kind e = TypeError)
           \<and> fst (analyze_job_listing lib self job st)
               = Inr (PInt 0, PStr (''Analysis failed: '' @ exc_str e))"
proof -
  have "\<exists>e. (exc_kind e = KeyError \<or> exc_kind e = TypeError)
          \<and> try_body lib (Inr (content # blocks)) = Inl e"
  proof (cases "py_getitem result ''match_score''")
    case (Inl e)
    with decoded py_getitem_raises [OF Inl] show ?thesis
      by (auto simp: try_body_def py_index_def)
  next
    case score: (Inr s)
    show ?thesis
    proof (cases "py_getitem result ''analysis''")
      case (Inl e)
      with decoded score py_getitem_raises [OF Inl] show ?thesis
        by (auto simp: try_body_def py_index_def)
    next
      case (Inr a)
      with score lacks show ?thesis
        by (auto dest!: py_getitem_found)
    qed
  qed
  then obtain e where kind: "exc_kind e = KeyError \<or> exc_kind e = TypeError"
    and raised: "try_body lib (Inr (content # blocks)) = Inl e"
    by blast
  from kind have "handlers (Inr (content # blocks)) e
                  = Inr (PInt 0, PStr (''Analysis failed: '' @ exc_str e))"
    by (auto simp: handlers_def)
  with request reply raised have "fst (analyze_job_listing lib self job st)
               = Inr (PInt 0, PStr (''Analysis failed: '' @ exc_str e))"
    by (simp add: analyze_job_listing_def Let_def)
  with kind show ?thesis by blast
qed

theorem analyze_job_listing_missing_key_witness:
  "fst (analyze_job_listing example_lib (example_ranker [Inr [''{\"score\": 8}'']])
         (example_job ''Backend Engineer'') start)
     = Inr (PInt 0, PStr (''Analysis failed: '' @ quoted ''match_score''))
   \<and> (\<exists>e. (exc_kind e = KeyError \<or> exc_kind e = TypeError)
         \<and> fst (analyze_job_listing example_lib (example_ranker [Inr [''{\"score\": 8}'']])
                  (example_job ''Backend Engineer'') start)
             = Inr (PInt 0, PStr (''Analysis failed: '' @ exc_str e)))"
proof -
  have request: "build_prompt (example_ranker [Inr [''{\"score\": 8}'']]) (example_job ''Backend Engineer'')
                 = Inr example_request"
    by (simp add: build_prompt_def example_defs example_data_defs)
  have reply: "fst (messages_create (example_ranker [Inr [''{\"score\": 8}'']]) example_request
                     (service start)) = Inr (''{\"score\": 8}'' # [])"
    by (simp add: example_defs)
  have decoded: "json_loads example_lib ''{\"score\": 8}'' = Inr (PDict [(''score'', PInt 8)])"
    by (simp add: example_defs)
  have lacks: "\<not> (\<exists>d s a. PDict [(''score'', PInt 8)] = PDict d
                      \<and> map_of d ''match_score'' = Some s \<and> map_of d ''analysis'' = Some a)"
    by auto
  have zero: "fst (analyze_job_listing example_lib (example_ranker [Inr [''{\"score\": 8}'']])
         (example_job ''Backend Engineer'') start)
     = Inr (PInt 0, PStr (''Analysis failed: '' @ quoted ''match_score''))"
    by (simp add: analyze_defs example_defs py_index_def)
  from zero analyze_job_listing_missing_key [OF request reply decoded lacks] show ?thesis
    by (rule conjI)
qed

section \<open>The ranking\<close>



text \<open>
  C4, as amended. When every analysis returns and every score is an integer,
  \<^verbatim>\<open>rank_jobs\<close> returns the scored records, which are the records of the input
  in their order with score and analysis written, sorted by score in non-increasing
  order, records of equal score in the order of the input.
\<close>

theorem rank_jobs_sorted:
  assumes loop: "fst (score_jobs lib self delay (length jobs) 1 jobs st) = Inr scored"
    and ints: "\<forall>r\<in>set scored. \<exists>n. match_score r = PInt n"
  shows "\<exists>ranked. fst (rank_jobs lib self jobs delay st) = Some (Inr ranked)
           \<and> map identity_of scored = map identity_of jobs
           \<and> mset ranked = mset scored
           \<and> sorted_wrt (\<lambda>a b. int_score a \<ge> int_score b) ranked
           \<and> (\<forall>k. filter (\<lambda>r. match_score r = PInt k) ranked
                    = filter (\<lambda>r. match_score r = PInt k) scored)"
proof -
  from loop have "map identity_of scored = map identity_of jobs"
    by (rule score_jobs_records)
  moreover from loop have "fst (rank_jobs lib self jobs delay st)
                  = sorted_by_match_score_reverse scored"
    by (cases "score_jobs lib self delay (length jobs) 1 jobs st") (simp add: rank_jobs_def)
  ultimately show ?thesis
    using int_score_sorted [OF ints] by auto
qed

theorem rank_jobs_sorted_witness:
  "fst (score_jobs example_lib (example_ranker five_replies) (2::nat) (length five_jobs) 1
          five_jobs start) = Inr five_scored
   \<and> (\<exists>ranked. fst (rank_jobs example_lib (example_ranker five_replies) five_jobs (2::nat) start)
                   = Some (Inr ranked)
         \<and> map identity_of five_scored = map identity_of five_jobs
         \<and> mset ranked = mset five_scored
         \<and> sorted_wrt (\<lambda>a b. int_score a \<ge> int_score b) ranked
         \<and> (\<forall>k. filter (\<lambda>r. match_score r = PInt k) ranked
                  = filter (\<lambda>r. match_score r = PInt k) five_scored))
   \<and> fst (rank_jobs example_lib (example_ranker five_replies) five_jobs (2::nat) start)
       = Some (Inr [scored_job ''B'' (PInt 9) (PStr ''b''),
                    scored_job ''D'' (PInt 9) (PStr ''d''),
                    scored_job ''E'' (PInt 5) (PStr ''e''),
                    scored_job ''A'' (PInt 3) (PStr ''a''),
                    scored_job ''C'' (PInt 1) (PStr ''c'')])"
proof -
  have loop: "fst (score_jobs example_lib (example_ranker five_replies) (2::nat) (length five_jobs) 1
          five_jobs start) = Inr five_scored"
    by (simp add: analyze_defs example_defs example_data_defs py_index_def)
  have ints: "\<forall>r\<in>set five_scored. \<exists>n. match_score r = PInt n"
    by (simp add: example_data_defs)
  have order: "fst (rank_jobs example_lib (example_ranker five_replies) five_jobs (2::nat) start)
       = Some (Inr [scored_job ''B'' (PInt 9) (PStr ''b''),
                    scored_job ''D'' (PInt 9) (PStr ''d''),
                    scored_job ''E'' (PInt 5) (PStr ''e''),
                    scored_job ''A'' (PInt 3) (PStr ''a''),
                    scored_job ''C'' (PInt 1) (PStr ''c'')])"
    by (simp add: rank_jobs_def analyze_defs example_defs example_data_defs py_index_def
        sorted_by_match_score_reverse_def sorted_reverse_def less_eq_prod_def)
  from loop rank_jobs_sorted [OF loop ints] order show ?thesis
    by (intro conjI)
qed

text \<open>
  C4 as stated fails: the scores are whatever the service answered, and \<^verbatim>\<open>sorted\<close>
  raises \<^verbatim>\<open>TypeError\<close> when it compares a string with a number.
\<close>

theorem rank_jobs_mixed_scores_raise:
  "(case fst (rank_jobs example_lib
               (example_ranker [Inr [''{\"match_score\": \"8\", \"analysis\": \"Good\"}''],
                                Inr [''{\"match_score\": 7, \"analysis\": \"Fair\"}'']])
               [example_job ''Backend Engineer'', example_job ''Data Engineer''] (2::nat) start) of
      Some (Inl e) \<Rightarrow> exc_kind e = TypeError
    | Some (Inr ranked) \<Rightarrow> False
    | None \<Rightarrow> False)"
  by (simp add: rank_jobs_def analyze_defs example_defs py_index_def
      sorted_by_match_score_reverse_def)

text \<open>
  C1, as amended. When the loop of \<^verbatim>\<open>rank_jobs\<close> completes, the record at every
  position \<open>k\<close> of the list is the record of the input with the score and the
  analysis that \<^verbatim>\<open>analyze_job_listing\<close> returned for that record, in the world the
  turns before it left, and these two values follow from what the service replied
  to the request for that record: score 0 and \<^verbatim>\<open>Analysis failed: \<close> with the text
  of the exception, when the body of the \<^verbatim>\<open>try\<close> raised something else than
  \<^verbatim>\<open>JSONDecodeError\<close>; the scrape of the first block of the reply, when
  \<^verbatim>\<open>json.loads\<close> refused it; the two values the decoded block holds under
  \<^verbatim>\<open>match_score\<close> and \<^verbatim>\<open>analysis\<close>, unchecked, otherwise. The sort that follows
  writes to no record: the records after the ranking are those after the loop, and
  the list \<^verbatim>\<open>rank_jobs\<close> returns, where \<open>sorted_by_match_score_reverse\<close>
  determines it, has these records and no other.
\<close>

theorem rank_jobs_scores:
  assumes "fst (score_jobs lib self delay (length jobs) 1 jobs st) = Inr scored"
    and "k < length jobs"
  shows "\<exists>request reply s a.
           build_prompt self (jobs ! k) = Inr request
         \<and> reply = fst (messages_create self request
                          (service (world_before_turn lib self delay jobs st k)))
         \<and> fst (analyze_job_listing lib self (jobs ! k)
                  (world_before_turn lib self delay jobs st k)) = Inr (s, a)
         \<and> scored ! k = (jobs ! k)\<lparr>match_score := s, analysis := a\<rparr>
         \<and> ((\<exists>e. try_body lib reply = Inl e \<and> exc_kind e \<noteq> JSONDecodeError
                  \<and> s = PInt 0 \<and> a = PStr (''Analysis failed: '' @ exc_str e))
              \<or> (\<exists>body blocks e. reply = Inr (body # blocks) \<and> json_loads lib body = Inl e
                    \<and> exc_kind e = JSONDecodeError \<and> (s, a) = scrape body)
              \<or> (\<exists>body blocks decoded. reply = Inr (body # blocks)
                    \<and> json_loads lib body = Inr decoded
                    \<and> py_getitem decoded ''match_score'' = Inr s
                    \<and> py_getitem decoded ''analysis'' = Inr a))
         \<and> length scored = length jobs
         \<and> (\<forall>ranked. fst (rank_jobs lib self jobs delay st) = Some (Inr ranked)
                \<longrightarrow> mset ranked = mset scored)"
proof -
  define before where "before = world_before_turn lib self delay jobs st k"
  have "\<exists>s a. fst (analyze_job_listing lib self (jobs ! k) before) = Inr (s, a)
           \<and> scored ! k = (jobs ! k)\<lparr>match_score := s, analysis := a\<rparr>"
    unfolding before_def world_before_turn_def using assms by (rule score_jobs_turn)
  then obtain s a where
    turn: "fst (analyze_job_listing lib self (jobs ! k) before) = Inr (s, a)"
    and written: "scored ! k = (jobs ! k)\<lparr>match_score := s, analysis := a\<rparr>"
    by (elim exE conjE)
  obtain request where request: "build_prompt self (jobs ! k) = Inr request"
    using turn by (cases "build_prompt self (jobs ! k)") (auto simp: analyze_job_listing_def)
  define reply where "reply = fst (messages_create self request (service before))"
  note cases = analyze_reply_cases [OF request reply_def turn]
  have len: "length scored = length jobs"
    using assms(1) by (rule score_jobs_length)
  have same: "\<forall>ranked. fst (rank_jobs lib self jobs delay st) = Some (Inr ranked)
                \<longrightarrow> mset ranked = mset scored"
  proof (intro allI impI)
    fix ranked
    assume "fst (rank_jobs lib self jobs delay st) = Some (Inr ranked)"
    with assms(1) have "sorted_by_match_score_reverse scored = Some (Inr ranked)"
      by (cases "score_jobs lib self delay (length jobs) 1 jobs st") (simp add: rank_jobs_def)
    then show "mset ranked = mset scored"
      by (rule sorted_returns_same_records)
  qed
  from request reply_def turn written cases len same
  have "build_prompt self (jobs ! k) = Inr request
         \<and> reply = fst (messages_create self request (service before))
         \<and> fst (analyze_job_listing lib self (jobs ! k) before) = Inr (s, a)
         \<and> scored ! k = (jobs ! k)\<lparr>match_score := s, analysis := a\<rparr>
         \<and> ((\<exists>e. try_body lib reply = Inl e \<and> exc_kind e \<noteq> JSONDecodeError
                  \<and> s = PInt 0 \<and> a = PStr (''Analysis failed: '' @ exc_str e))
              \<or> (\<exists>body blocks e. reply = Inr (body # blocks) \<and> json_loads lib body = Inl e
                    \<and> exc_kind e = JSONDecodeError \<and> (s, a) = scrape body)
              \<or> (\<exists>body blocks decoded. reply = Inr (body # blocks)
                    \<and> json_loads lib body = Inr decoded
                    \<and> py_getitem decoded ''match_score'' = Inr s
                    \<and> py_getitem decoded ''analysis'' = Inr a))
         \<and> length scored = length jobs
         \<and> (\<forall>ranked. fst (rank_jobs lib self jobs delay st) = Some (Inr ranked)
                \<longrightarrow> mset ranked = mset scored)"
    by (intro conjI)
  then show ?thesis
    unfolding before_def
    by (intro exI [of _ request] exI [of _ reply] exI [of _ s] exI [of _ a])
qed

theorem rank_jobs_scores_witness:
  "fst (score_jobs example_lib (example_ranker three_replies) (2::nat) (length three_jobs) 1
          three_jobs start) = Inr three_scored
   \<and> 1 < length three_jobs
   \<and> (\<exists>request reply s a.
           build_prompt (example_ranker three_replies) (three_jobs ! 1) = Inr request
         \<and> reply = fst (messages_create (example_ranker three_replies) request
                          (service (world_before_turn example_lib (example_ranker three_replies)
                                      (2::nat) three_jobs start 1)))
         \<and> fst (analyze_job_listing example_lib (example_ranker three_replies) (three_jobs ! 1)
                  (world_before_turn example_lib (example_ranker three_replies)
                     (2::nat) three_jobs start 1)) = Inr (s, a)
         \<and> three_scored ! 1 = (three_jobs ! 1)\<lparr>match_score := s, analysis := a\<rparr>
         \<and> ((\<exists>e. try_body example_lib reply = Inl e \<and> exc_kind e \<noteq> JSONDecodeError
                  \<and> s = PInt 0 \<and> a = PStr (''Analysis failed: '' @ exc_str e))
              \<or> (\<exists>body blocks e. reply = Inr (body # blocks)
                    \<and> json_loads example_lib body = Inl e
                    \<and> exc_kind e = JSONDecodeError \<and> (s, a) = scrape body)
              \<or> (\<exists>body blocks decoded. reply = Inr (body # blocks)
                    \<and> json_loads example_lib body = Inr decoded
                    \<and> py_getitem decoded ''match_score'' = Inr s
                    \<and> py_getitem decoded ''analysis'' = Inr a))
         \<and> length three_scored = length three_jobs
         \<and> (\<forall>ranked. fst (rank_jobs example_lib (example_ranker three_replies) three_jobs
                              (2::nat) start) = Some (Inr ranked)
                \<longrightarrow> mset ranked = mset three_scored))
   \<and> three_scored ! 1
       = scored_job ''Data Engineer'' (PInt 5) (PStr ''Sorry, I cannot rate this.'')
   \<and> build_prompt (example_ranker three_replies) (three_jobs ! 1)
       = Inr (example_request\<lparr>p_title := PStr ''Data Engineer''\<rparr>)
   \<and> fst (messages_create (example_ranker three_replies)
            (example_request\<lparr>p_title := PStr ''Data Engineer''\<rparr>)
            (service (world_before_turn example_lib (example_ranker three_replies)
                        (2::nat) three_jobs start 1)))
       = Inr [''Sorry, I cannot rate this.'']"
proof -
  have loop: "fst (score_jobs example_lib (example_ranker three_replies) (2::nat)
          (length three_jobs) 1 three_jobs start) = Inr three_scored"
    by (simp add: analyze_defs example_defs example_data_defs py_index_def py_startswith_def)
  have bound: "1 < length three_jobs"
    by (simp add: three_jobs_def)
  have second: "three_scored ! 1
       = scored_job ''Data Engineer'' (PInt 5) (PStr ''Sorry, I cannot rate this.'')"
    by (simp add: three_scored_def)
  have request: "build_prompt (example_ranker three_replies) (three_jobs ! 1)
       = Inr (example_request\<lparr>p_title := PStr ''Data Engineer''\<rparr>)"
    by (simp add: build_prompt_def example_defs example_data_defs)
  have reply: "fst (messages_create (example_ranker three_replies)
            (example_request\<lparr>p_title := PStr ''Data Engineer''\<rparr>)
            (service (world_before_turn example_lib (example_ranker three_replies)
                        (2::nat) three_jobs start 1)))
       = Inr [''Sorry, I cannot rate this.'']"
    by (simp add: world_before_turn_def analyze_defs example_defs example_data_defs py_index_def)
  from loop bound rank_jobs_scores [OF loop bound] second request reply show ?thesis
    by (intro conjI)
qed

text \<open>
  C1 as stated fails: a response with score 11 and an empty analysis is stored as
  it is.
\<close>

theorem rank_jobs_score_out_of_range:
  "fst (rank_jobs example_lib
          (example_ranker [Inr [''{\"match_score\": 11, \"analysis\": \"\"}'']])
          [example_job ''Backend Engineer''] (2::nat) start)
     = Some (Inr [scored_job ''Backend Engineer'' (PInt 11) (PStr [])])"
  by (simp add: rank_jobs_def analyze_defs example_defs example_data_defs py_index_def
      sorted_by_match_score_reverse_def)

section \<open>The result file\<close>

lemma length_results_from: "length (results_from k jobs) = length jobs"
  by (induction jobs arbitrary: k) simp_all

lemma results_from_nth:
  "i < length jobs \<Longrightarrow> results_from k jobs ! i = result_entry (k + i) (jobs ! i)"
proof (induction jobs arbitrary: k i)
  case Nil
  then show ?case by simp
next
  case (Cons job rest)
  then show ?case by (cases i) simp_all
qed

text \<open>
  C9. When the file can be opened, \<^verbatim>\<open>save_results\<close> leaves at the path, whatever
  was there before, a list with one object per record in the order given; the
  object at position \<open>i\<close> (from 0) has the rank \<open>i + 1\<close> and, beside it, exactly the
  match_score, company, title, url and analysis of that record. No other file
  changes.
\<close>

theorem save_results_document:
  assumes "refuses d filename = None"
  shows "\<exists>entries.
           save_results ranked filename d
             = (Inr (), d\<lparr>documents := (documents d)(filename \<mapsto> PList entries)\<rparr>)
         \<and> length entries = length ranked
         \<and> (\<forall>i<length ranked.
               entries ! i
               = PDict [(''rank'', PInt (int i + 1)),
                        (''match_score'', match_score (ranked ! i)),
                        (''company'', company (ranked ! i)),
                        (''title'', title (ranked ! i)),
                        (''url'', url (ranked ! i)),
                        (''analysis'', analysis (ranked ! i))])"
proof -
  have "save_results ranked filename d
          = (Inr (), d\<lparr>documents := (documents d)(filename \<mapsto> PList (results_from 1 ranked))\<rparr>)"
    using assms by (simp add: save_results_def)
  moreover have "length (results_from 1 ranked) = length ranked"
    by (rule length_results_from)
  moreover have "\<forall>i<length ranked.
               results_from 1 ranked ! i
               = PDict [(''rank'', PInt (int i + 1)),
                        (''match_score'', match_score (ranked ! i)),
                        (''company'', company (ranked ! i)),
                        (''title'', title (ranked ! i)),
                        (''url'', url (ranked ! i)),
                        (''analysis'', analysis (ranked ! i))]"
    by (simp add: results_from_nth result_entry_def)
  ultimately show ?thesis by blast
qed

theorem save_results_document_witness:
  "documents (snd (save_results [scored_job ''B'' (PInt 9) (PStr ''b''),
                                  scored_job ''A'' (PInt 3) (PStr ''a'')]
                     ''job_rankings.json'' example_disk)) ''job_rankings.json''
     = Some (PList [PDict [(''rank'', PInt 1), (''match_score'', PInt 9),
                           (''company'', PStr ''Widgetco''), (''title'', PStr ''B''),
                           (''url'', PStr ''https://careers.widgetco.com/job/42''),
                           (''analysis'', PStr ''b'')],
                    PDict [(''rank'', PInt 2), (''match_score'', PInt 3),
                           (''company'', PStr ''Widgetco''), (''title'', PStr ''A''),
                           (''url'', PStr ''https://careers.widgetco.com/job/42''),
                           (''analysis'', PStr ''a'')]])
   \<and> (\<exists>entries.
           save_results [scored_job ''B'' (PInt 9) (PStr ''b''),
                         scored_job ''A'' (PInt 3) (PStr ''a'')] ''job_rankings.json'' example_disk
             = (Inr (), example_disk\<lparr>documents :=
                  (documents example_disk)(''job_rankings.json'' \<mapsto> PList entries)\<rparr>)
         \<and> length entries = length [scored_job ''B'' (PInt 9) (PStr ''b''),
                                     scored_job ''A'' (PInt 3) (PStr ''a'')]
         \<and> (\<forall>i<length [scored_job ''B'' (PInt 9) (PStr ''b''),
                         scored_job ''A'' (PInt 3) (PStr ''a'')].
               entries ! i
               = PDict [(''rank'', PInt (int i + 1)),
                        (''match_score'', match_score ([scored_job ''B'' (PInt 9) (PStr ''b''),
                                     scored_job ''A'' (PInt 3) (PStr ''a'')] ! i)),
                        (''company'', company ([scored_job ''B'' (PInt 9) (PStr ''b''),
                                     scored_job ''A'' (PInt 3) (PStr ''a'')] ! i)),
                        (''title'', title ([scored_job ''B'' (PInt 9) (PStr ''b''),
                                     scored_job ''A'' (PInt 3) (PStr ''a'')] ! i)),
                        (''url'', url ([scored_job ''B'' (PInt 9) (PStr ''b''),
                                     scored_job ''A'' (PInt 3) (PStr ''a'')] ! i)),
                        (''analysis'', analysis ([scored_job ''B'' (PInt 9) (PStr ''b''),
                                     scored_job ''A'' (PInt 3) (PStr ''a'')] ! i))]))"
proof -
  have opens: "refuses example_disk ''job_rankings.json'' = None"
    by (simp add: example_data_defs)
  have written: "documents (snd (save_results [scored_job ''B'' (PInt 9) (PStr ''b''),
                                  scored_job ''A'' (PInt 3) (PStr ''a'')]
                     ''job_rankings.json'' example_disk)) ''job_rankings.json''
     = Some (PList [PDict [(''rank'', PInt 1), (''match_score'', PInt 9),
                           (''company'', PStr ''Widgetco''), (''title'', PStr ''B''),
                           (''url'', PStr ''https://careers.widgetco.com/job/42''),
                           (''analysis'', PStr ''b'')],
                    PDict [(''rank'', PInt 2), (''match_score'', PInt 3),
                           (''company'', PStr ''Widgetco''), (''title'', PStr ''A''),
                           (''url'', PStr ''https://careers.widgetco.com/job/42''),
                           (''analysis'', PStr ''a'')]])"
    by (simp add: save_results_def result_entry_def example_data_defs example_job_def)
  from written save_results_document [OF opens] show ?thesis
    by (rule conjI)
qed

section \<open>The company name\<close>

text \<open>The two rules, on the body of the \<^verbatim>\<open>try\<close>.\<close>

lemma company_from_title:
  assumes "str_contains '' hiring '' t"
  shows "company_from lib u (PStr t)
         = Inr (if py_startswith (py_strip (before_first '' hiring '' t)) ''Jobs at ''
                then py_replace ''Jobs at '' [] (py_strip (before_first '' hiring '' t))
                else py_strip (before_first '' hiring '' t))"
proof -
  have "py_index (py_split '' hiring '' t) 0 = Inr (before_first '' hiring '' t)"
    using split_from_first_piece [of "'' hiring ''" "[]" t]
    by (cases "split_from '' hiring '' [] t") (simp_all add: py_split_def py_index_def)
  with assms show ?thesis
    by (simp add: company_from_def Let_def)
qed

lemma company_from_domain:
  assumes plain: "\<not> str_contains '' hiring '' t"
    and netloc: "urlparse_netloc lib s = Inr netloc"
    and labels: "py_lower netloc = join_with ''.'' labels" "2 \<le> length labels"
      "\<forall>l\<in>set labels. CHR ''.'' \<notin> set l"
    and direct: "\<not> str_contains ''linkedin.com'' (py_lower netloc)"
      "\<not> str_contains ''glassdoor.com'' (py_lower netloc)"
      "\<not> str_contains ''indeed.com'' (py_lower netloc)"
      "\<not> str_contains ''greenhouse.io'' (py_lower netloc)"
  shows "company_from lib (PStr s) (PStr t) = Inr (py_capitalize (labels ! (length labels - 2)))"
proof -
  define domain where "domain = py_lower netloc"
  from labels(2) have "labels \<noteq> []" by auto
  with labels(3) have "py_split [CHR ''.''] (join_with [CHR ''.''] labels) = labels"
    by (rule py_split_join)
  with labels(1) have parts: "py_split ''.'' domain = labels"
    by (simp add: domain_def)
  from netloc have "domain_of lib (PStr s) = Inr domain"
    by (simp add: domain_def)
  with plain direct parts labels(2) show ?thesis
    unfolding domain_def [symmetric] by (simp add: company_from_def Let_def)
qed

text \<open>
  C7. A title that contains \<^verbatim>\<open>" hiring "\<close> decides the name, whatever the url is and
  whatever the library says of it: the name is the text before the first
  \<^verbatim>\<open>" hiring "\<close>, stripped, without \<^verbatim>\<open>Jobs at \<close> when it starts with that. For a
  title without \<^verbatim>\<open>" hiring "\<close> and a url whose network location, in lower case, is
  two or more labels joined by dots and names none of the four job boards, the name
  is the second-to-last label, capitalised. The two examples of the claim follow:
  \<^verbatim>\<open>Acme Corp\<close> for the greenhouse url, for every library, and \<^verbatim>\<open>Widgetco\<close> for
  every library that finds the location \<^verbatim>\<open>careers.widgetco.com\<close> in the second url.
\<close>

theorem extract_company_name_rules:
  "(str_contains '' hiring '' t \<longrightarrow>
      extract_company_name lib u (PStr t)
        = (if py_startswith (py_strip (before_first '' hiring '' t)) ''Jobs at ''
           then py_replace ''Jobs at '' [] (py_strip (before_first '' hiring '' t))
           else py_strip (before_first '' hiring '' t)))
   \<and> (\<not> str_contains '' hiring '' t' \<and> urlparse_netloc lib s = Inr netloc
        \<and> py_lower netloc = join_with ''.'' labels \<and> 2 \<le> length labels
        \<and> (\<forall>l\<in>set labels. CHR ''.'' \<notin> set l)
        \<and> \<not> str_contains ''linkedin.com'' (py_lower netloc)
        \<and> \<not> str_contains ''glassdoor.com'' (py_lower netloc)
        \<and> \<not> str_contains ''indeed.com'' (py_lower netloc)
        \<and> \<not> str_contains ''greenhouse.io'' (py_lower netloc)
        \<longrightarrow> extract_company_name lib (PStr s) (PStr t')
              = py_capitalize (labels ! (length labels - 2)))
   \<and> extract_company_name lib (PStr ''https://boards.greenhouse.io/acme/jobs/1'')
        (PStr ''Acme Corp hiring Backend Engineer'') = ''Acme Corp''
   \<and> (urlparse_netloc lib ''https://careers.widgetco.com/job/42'' = Inr ''careers.widgetco.com''
        \<longrightarrow> extract_company_name lib (PStr ''https://careers.widgetco.com/job/42'')
              (PStr ''Backend Engineer'') = ''Widgetco'')"
proof (intro conjI impI)
  assume "str_contains '' hiring '' t"
  then show "extract_company_name lib u (PStr t)
        = (if py_startswith (py_strip (before_first '' hiring '' t)) ''Jobs at ''
           then py_replace ''Jobs at '' [] (py_strip (before_first '' hiring '' t))
           else py_strip (before_first '' hiring '' t))"
    by (simp only: extract_company_name_def company_from_title sum.case)
next
  assume h: "\<not> str_contains '' hiring '' t' \<and> urlparse_netloc lib s = Inr netloc
        \<and> py_lower netloc = join_with ''.'' labels \<and> 2 \<le> length labels
        \<and> (\<forall>l\<in>set labels. CHR ''.'' \<notin> set l)
        \<and> \<not> str_contains ''linkedin.com'' (py_lower netloc)
        \<and> \<not> str_contains ''glassdoor.com'' (py_lower netloc)
        \<and> \<not> str_contains ''indeed.com'' (py_lower netloc)
        \<and> \<not> str_contains ''greenhouse.io'' (py_lower netloc)"
  then have "company_from lib (PStr s) (PStr t')
             = Inr (py_capitalize (labels ! (length labels - 2)))"
    by (elim conjE) (rule company_from_domain)
  then show "extract_company_name lib (PStr s) (PStr t')
              = py_capitalize (labels ! (length labels - 2))"
    by (simp only: extract_company_name_def sum.case)
next
  show "extract_company_name lib (PStr ''https://boards.greenhouse.io/acme/jobs/1'')
        (PStr ''Acme Corp hiring Backend Engineer'') = ''Acme Corp''"
    by (simp add: extract_company_name_def company_from_def string_defs)
next
  assume "urlparse_netloc lib ''https://careers.widgetco.com/job/42'' = Inr ''careers.widgetco.com''"
  then show "extract_company_name lib (PStr ''https://careers.widgetco.com/job/42'')
              (PStr ''Backend Engineer'') = ''Widgetco''"
    by (simp add: extract_company_name_def company_from_def string_defs)
qed

theorem extract_company_name_rules_witness:
  "str_contains '' hiring '' ''Jobs at Acme Corp hiring Backend Engineer''
   \<and> extract_company_name example_lib (PStr ''https://boards.greenhouse.io/acme/jobs/1'')
        (PStr ''Jobs at Acme Corp hiring Backend Engineer'') = ''Acme Corp''
   \<and> extract_company_name example_lib (PStr ''https://boards.greenhouse.io/acme/jobs/1'')
        (PStr ''Backend Engineer'') = ''Greenhouse Job''
   \<and> \<not> str_contains '' hiring '' ''Backend Engineer''
   \<and> urlparse_netloc example_lib ''https://Jobs.EU.Widgetco.com/v1.2/42'' = Inr ''Jobs.EU.Widgetco.com''
   \<and> py_lower ''Jobs.EU.Widgetco.com'' = join_with ''.'' [''jobs'', ''eu'', ''widgetco'', ''com'']
   \<and> extract_company_name example_lib (PStr ''https://Jobs.EU.Widgetco.com/v1.2/42'')
        (PStr ''Backend Engineer'') = ''Widgetco''
   \<and> urlparse_netloc example_lib ''https://careers.widgetco.com/job/42''
       = Inr ''careers.widgetco.com''
   \<and> extract_company_name example_lib (PStr ''https://careers.widgetco.com/job/42'')
        (PStr ''Backend Engineer'') = ''Widgetco''"
proof -
  note rules = extract_company_name_rules
    [where t = "''Jobs at Acme Corp hiring Backend Engineer''" and lib = example_lib
       and u = "PStr ''https://boards.greenhouse.io/acme/jobs/1''"
       and t' = "''Backend Engineer''" and s = "''https://Jobs.EU.Widgetco.com/v1.2/42''"
       and netloc = "''Jobs.EU.Widgetco.com''"
       and labels = "[''jobs'', ''eu'', ''widgetco'', ''com'']"]
  have hiring: "str_contains '' hiring '' ''Jobs at Acme Corp hiring Backend Engineer''"
    by (simp add: py_startswith_def)
  have name: "(if py_startswith (py_strip (before_first '' hiring ''
                    ''Jobs at Acme Corp hiring Backend Engineer'')) ''Jobs at ''
               then py_replace ''Jobs at '' [] (py_strip (before_first '' hiring ''
                    ''Jobs at Acme Corp hiring Backend Engineer''))
               else py_strip (before_first '' hiring ''
                    ''Jobs at Acme Corp hiring Backend Engineer'')) = ''Acme Corp''"
    by (simp add: string_defs)
  from rules [THEN conjunct1, THEN mp, OF hiring]
  have "extract_company_name example_lib
        (PStr ''https://boards.greenhouse.io/acme/jobs/1'')
        (PStr ''Jobs at Acme Corp hiring Backend Engineer'')
      = (if py_startswith (py_strip (before_first '' hiring ''
                    ''Jobs at Acme Corp hiring Backend Engineer'')) ''Jobs at ''
               then py_replace ''Jobs at '' [] (py_strip (before_first '' hiring ''
                    ''Jobs at Acme Corp hiring Backend Engineer''))
               else py_strip (before_first '' hiring ''
                    ''Jobs at Acme Corp hiring Backend Engineer''))" .
  then have title_rule: "extract_company_name example_lib
        (PStr ''https://boards.greenhouse.io/acme/jobs/1'')
        (PStr ''Jobs at Acme Corp hiring Backend Engineer'') = ''Acme Corp''"
    using name by (rule trans)
  have board: "extract_company_name example_lib (PStr ''https://boards.greenhouse.io/acme/jobs/1'')
        (PStr ''Backend Engineer'') = ''Greenhouse Job''"
    by (simp add: company_defs string_defs example_lib_def)
  have plain: "\<not> str_contains '' hiring '' ''Backend Engineer''"
    by (simp add: py_startswith_def)
  have netloc: "urlparse_netloc example_lib ''https://Jobs.EU.Widgetco.com/v1.2/42''
                = Inr ''Jobs.EU.Widgetco.com''"
    by (simp add: example_lib_def example_urlparse_netloc_def example_netlocs_def)
  have labels: "py_lower ''Jobs.EU.Widgetco.com'' = join_with ''.'' [''jobs'', ''eu'', ''widgetco'', ''com'']"
    by (simp add: string_defs)
  have dots: "\<forall>l\<in>set [''jobs'', ''eu'', ''widgetco'', ''com'']. CHR ''.'' \<notin> set l"
    by simp
  have direct: "\<not> str_contains ''linkedin.com'' (py_lower ''Jobs.EU.Widgetco.com'')
        \<and> \<not> str_contains ''glassdoor.com'' (py_lower ''Jobs.EU.Widgetco.com'')
        \<and> \<not> str_contains ''indeed.com'' (py_lower ''Jobs.EU.Widgetco.com'')
        \<and> \<not> str_contains ''greenhouse.io'' (py_lower ''Jobs.EU.Widgetco.com'')"
    by (simp add: string_defs)
  have label: "py_capitalize ([''jobs'', ''eu'', ''widgetco'', ''com'']
                  ! (length [''jobs'', ''eu'', ''widgetco'', ''com''] - 2)) = ''Widgetco''"
    by (simp add: string_defs)
  from plain netloc labels dots direct
  have "\<not> str_contains '' hiring '' ''Backend Engineer''
        \<and> urlparse_netloc example_lib ''https://Jobs.EU.Widgetco.com/v1.2/42''
            = Inr ''Jobs.EU.Widgetco.com''
        \<and> py_lower ''Jobs.EU.Widgetco.com'' = join_with ''.'' [''jobs'', ''eu'', ''widgetco'', ''com'']
        \<and> 2 \<le> length [''jobs'', ''eu'', ''widgetco'', ''com'']
        \<and> (\<forall>l\<in>set [''jobs'', ''eu'', ''widgetco'', ''com'']. CHR ''.'' \<notin> set l)
        \<and> \<not> str_contains ''linkedin.com'' (py_lower ''Jobs.EU.Widgetco.com'')
        \<and> \<not> str_contains ''glassdoor.com'' (py_lower ''Jobs.EU.Widgetco.com'')
        \<and> \<not> str_contains ''indeed.com'' (py_lower ''Jobs.EU.Widgetco.com'')
        \<and> \<not> str_contains ''greenhouse.io'' (py_lower ''Jobs.EU.Widgetco.com'')"
    by (intro conjI) simp_all
  from rules [THEN conjunct2, THEN conjunct1, THEN mp, OF this]
  have "extract_company_name example_lib (PStr ''https://Jobs.EU.Widgetco.com/v1.2/42'')
          (PStr ''Backend Engineer'')
        = py_capitalize ([''jobs'', ''eu'', ''widgetco'', ''com'']
                  ! (length [''jobs'', ''eu'', ''widgetco'', ''com''] - 2))" .
  then have domain_rule: "extract_company_name example_lib
        (PStr ''https://Jobs.EU.Widgetco.com/v1.2/42'') (PStr ''Backend Engineer'') = ''Widgetco''"
    using label by (rule trans)
  have careers: "urlparse_netloc example_lib ''https://careers.widgetco.com/job/42''
       = Inr ''careers.widgetco.com''"
    by (simp add: example_lib_def example_urlparse_netloc_def example_netlocs_def)
  from rules [THEN conjunct2, THEN conjunct2, THEN conjunct2, THEN mp, OF careers]
  have example: "extract_company_name example_lib
        (PStr ''https://careers.widgetco.com/job/42'') (PStr ''Backend Engineer'') = ''Widgetco''" .
  from hiring title_rule board plain netloc labels domain_rule careers example show ?thesis
    by (intro conjI)
qed

text \<open>The ways in which the body of the \<^verbatim>\<open>try\<close> raises.\<close>

lemma company_from_raises:
  assumes "company_from lib u t = Inl e"
  shows "hiring_in t = Inl e \<or> (hiring_in t = Inr True \<and> \<not> is_str t)
         \<or> (hiring_in t = Inr False \<and> domain_of lib u = Inl e)"
proof (cases "hiring_in t")
  case (Inl e')
  with assms show ?thesis by (simp add: company_from_def)
next
  case (Inr found)
  show ?thesis
  proof (cases found)
    case False
    with assms Inr show ?thesis
      by (auto simp: company_from_def Let_def split: sum.splits if_splits)
  next
    case True
    show ?thesis
    proof (cases t)
      case (PStr s)
      have "py_index (py_split '' hiring '' s) 0 = Inr (hd (py_split '' hiring '' s))"
        using split_from_first_piece [of "'' hiring ''" "[]" s]
        by (cases "split_from '' hiring '' [] s") (simp_all add: py_split_def py_index_def)
      with assms Inr True PStr show ?thesis
        by (simp add: company_from_def Let_def)
    qed (use Inr True in simp_all)
  qed
qed

text \<open>
  C6, as amended. \<^verbatim>\<open>_extract_company_name\<close> returns a string for every url and
  title, and the string is \<^verbatim>\<open>Unknown Company\<close> whenever the extraction raises: for a
  title that cannot be searched, for a title that is not a string but holds
  \<^verbatim>\<open>" hiring "\<close>, for a url that is not a string or that \<^verbatim>\<open>urlparse\<close> refuses.
  Otherwise it is the name extracted, which may be empty.
\<close>

theorem extract_company_name_fallback:
  "(\<forall>e. hiring_in t = Inl e \<longrightarrow> extract_company_name lib u t = ''Unknown Company'')
   \<and> (hiring_in t = Inr True \<and> \<not> is_str t
        \<longrightarrow> extract_company_name lib u t = ''Unknown Company'')
   \<and> (\<forall>e. hiring_in t = Inr False \<and> domain_of lib u = Inl e
        \<longrightarrow> extract_company_name lib u t = ''Unknown Company'')
   \<and> (\<forall>s tt e. \<not> str_contains '' hiring '' tt \<and> urlparse_netloc lib s = Inl e
        \<longrightarrow> extract_company_name lib (PStr s) (PStr tt) = ''Unknown Company'')
   \<and> (\<forall>name. company_from lib u t = Inr name \<longrightarrow> extract_company_name lib u t = name)"
proof (intro conjI allI impI)
  fix e assume "hiring_in t = Inl e"
  then show "extract_company_name lib u t = ''Unknown Company''"
    by (simp add: extract_company_name_def company_from_def)
next
  assume "hiring_in t = Inr True \<and> \<not> is_str t"
  then show "extract_company_name lib u t = ''Unknown Company''"
    by (cases t) (simp_all add: extract_company_name_def company_from_def)
next
  fix e assume "hiring_in t = Inr False \<and> domain_of lib u = Inl e"
  then show "extract_company_name lib u t = ''Unknown Company''"
    by (simp add: extract_company_name_def company_from_def)
next
  fix s tt e assume "\<not> str_contains '' hiring '' tt \<and> urlparse_netloc lib s = Inl e"
  then show "extract_company_name lib (PStr s) (PStr tt) = ''Unknown Company''"
    by (simp add: extract_company_name_def company_from_def)
next
  fix name assume "company_from lib u t = Inr name"
  then show "extract_company_name lib u t = name"
    by (simp add: extract_company_name_def)
qed

theorem extract_company_name_fallback_witness:
  "urlparse_netloc example_lib ''http://[bad'' = Inl (Exc ValueError ''Invalid IPv6 URL'')
   \<and> \<not> str_contains '' hiring '' ''Backend Engineer''
   \<and> extract_company_name example_lib (PStr ''http://[bad'') (PStr ''Backend Engineer'')
       = ''Unknown Company''"
proof -
  have raised: "urlparse_netloc example_lib ''http://[bad'' = Inl (Exc ValueError ''Invalid IPv6 URL'')"
    by (simp add: example_lib_def company_defs)
  have plain: "\<not> str_contains '' hiring '' ''Backend Engineer''"
    by (simp add: py_startswith_def)
  from extract_company_name_fallback [of "PStr ''Backend Engineer''" example_lib "PStr ''http://[bad''"]
  have "\<forall>s tt e. \<not> str_contains '' hiring '' tt \<and> urlparse_netloc example_lib s = Inl e
        \<longrightarrow> extract_company_name example_lib (PStr s) (PStr tt) = ''Unknown Company''"
    by blast
  with raised plain have "extract_company_name example_lib (PStr ''http://[bad'') (PStr ''Backend Engineer'')
       = ''Unknown Company''"
    by blast
  with raised plain show ?thesis by blast
qed

text \<open>
  C6 as stated fails: for an item without a link (the url is then the empty string)
  and a title without \<^verbatim>\<open>" hiring "\<close> the name is empty.
\<close>

theorem extract_company_name_empty:
  "extract_company_name example_lib (PStr []) (PStr ''Backend Engineer'') = []"
  by (simp add: company_defs string_defs example_lib_def)

section \<open>The record parser\<close>

text \<open>
  Without an \<^verbatim>\<open>items\<close> key, or with an empty list, the result is empty. For a list of
  objects whose titles are strings or absent, the result has the record of each item
  in the order of the list, with the defaults for a missing title, link and snippet,
  and no warning is printed. An item that is not an object is skipped.
\<close>

lemma parse_item_well_formed:
  assumes "well_formed_item (PDict d)"
  shows "parse_item lib (PDict d) jobs = (jobs @ [listing_of lib d], None)"
  using assms
  by (auto simp: parse_item_def listing_of_def Let_def split: option.splits pyval.splits)

lemma parse_item_not_object:
  assumes "\<not> is_dict item"
  shows "\<exists>e. parse_item lib item jobs = (jobs, Some e)"
  using assms by (cases item) (simp_all add: parse_item_def)

lemma parse_items_well_formed:
  assumes "\<forall>d\<in>set ds. well_formed_item (PDict d)"
  shows "parse_items lib i (map PDict ds) jobs warned = (jobs @ map (listing_of lib) ds, warned)"
  using assms
proof (induction ds arbitrary: i jobs)
  case Nil
  then show ?case by simp
next
  case (Cons d ds)
  then show ?case by (simp add: parse_item_well_formed)
qed

lemma parse_google_search_json_no_items:
  assumes "map_of search_results ''items'' = None \<or> map_of search_results ''items'' = Some (PList [])"
  shows "parse_google_search_json lib search_results = Inr ([], [])"
  using assms by (auto simp: parse_google_search_json_def)

lemma parse_google_search_json_well_formed:
  assumes "map_of search_results ''items'' = Some (PList (map PDict ds))"
    and "\<forall>d\<in>set ds. well_formed_item (PDict d)"
  shows "parse_google_search_json lib search_results = Inr (map (listing_of lib) ds, [])"
proof (cases ds)
  case Nil
  with assms(1) show ?thesis by (simp add: parse_google_search_json_def)
next
  case (Cons d rest)
  with assms(1) have "truthy (PList (map PDict ds))" by simp
  with assms(1) have "parse_google_search_json lib search_results
                      = Inr (parse_items lib 1 (map PDict ds) [] [])"
    by (simp add: parse_google_search_json_def)
  with parse_items_well_formed [OF assms(2), of lib 1 "[]" "[]"] show ?thesis by simp
qed

text \<open>
  C5. The claim is that an exception while an item is parsed makes the parser skip
  that item. For an item whose title is \<^verbatim>\<open>null\<close> the record is appended first and
  the exception comes after, from \<^verbatim>\<open>title[:50]\<close> in the progress message: the
  warning is printed for item 1 and the record of item 1 is in the result.
\<close>

theorem parse_google_search_json_keeps_warned_item:
  "parse_google_search_json example_lib
      [(''items'', PList [PDict [(''title'', PNone),
                                 (''link'', PStr ''https://careers.widgetco.com/job/42'')]])]
   = Inr ([\<lparr>title = PNone, company = PStr ''Unknown Company'',
             url = PStr ''https://careers.widgetco.com/job/42'',
             description = PStr [], match_score = PInt 0, analysis = PStr []\<rparr>],
          [1])"
  by (simp add: parse_google_search_json_def parse_item_def company_defs)

end
